theory Spec2Isabelle
  imports Main "HOL-Library.Word"
begin

section \<open>The C++ wrapper layer of \<^verbatim>\<open>plaidml/core/core.h\<close>\<close>

text \<open>
  The header wraps a foreign C interface (\<^verbatim>\<open>plaidml/core/ffi.h\<close>) in value types.
  Conventions of the embedding:
  \<^item> a raw pointer is a natural number, \<open>0\<close> being \<^verbatim>\<open>nullptr\<close>;
  \<^item> \<^verbatim>\<open>int64_t\<close>, \<^verbatim>\<open>uint64_t\<close> and \<^verbatim>\<open>size_t\<close> values that take part in
    arithmetic are 64-bit words (an LP64 platform), \<^verbatim>\<open>int\<close> is a 32-bit word read
    as two's complement;
  \<^item> host memory is a total map from addresses to bytes; \<^verbatim>\<open>memcpy\<close> is not checked by
    the code, and neither is it here;
  \<^item> an exception is a value \<open>Inl\<close> of a sum type;
  \<^item> the functions of \<^verbatim>\<open>ffi.h\<close> are not part of the header: they are the fields of
    a record \<open>rt\<close> that every operation takes as a parameter. They act on the host memory
    and on a state of their own, of an arbitrary type \<open>'r\<close>;
  \<^item> every invocation of a foreign function appends an event to a trace, so that
    "is invoked", "exactly once" and "before any foreign call" are statements about
    the trace;
  \<^item> where C++ leaves the order of two calls open (the operands of \<^verbatim>\<open>==\<close>, the arguments
    of a call), the operation takes the order as a parameter, and a property is stated
    for both orders.
\<close>

subsection \<open>Data\<close>

type_synonym ptr = nat
type_synonym byte = "8 word"
type_synonym int64_t = "64 word"
type_synonym memory = "nat \<Rightarrow> byte"
type_synonym 'r world = "memory \<times> 'r"

datatype DType =
  INVALID | BOOLEAN | INT8 | UINT8 | INT16 | UINT16 | INT32 | UINT32 | INT64 | UINT64
  | BFLOAT16 | FLOAT16 | FLOAT32 | FLOAT64

text \<open>\<^verbatim>\<open>plaidml_error\<close>: the error record a foreign function fills in.\<close>

record plaidml_error =
  code :: nat
  msg :: ptr

text \<open>
  What the header throws: \<^verbatim>\<open>std::runtime_error\<close> with its message. An exception that
  leaves the deleter of a \<^verbatim>\<open>std::shared_ptr\<close> leaves a destructor, which is
  \<^verbatim>\<open>noexcept\<close>: the program ends in \<^verbatim>\<open>std::terminate\<close>, recorded with the message
  of the exception.
\<close>

datatype failure = runtime_error string | terminate string

text \<open>
  The order in which two operands or arguments are evaluated: the one written first, or
  the one written last.
\<close>

datatype eval_order = left_first | right_first

text \<open>The three kinds of foreign resource a \<^verbatim>\<open>details::Deleter\<close> is instantiated for.\<close>

datatype resource = shape_res | buffer_res | view_res

datatype ffi_event =
  E_string_ptr ptr
  | E_string_free ptr
  | E_shape_alloc DType nat "int64_t list" "int64_t list"
  | E_shape_get_nbytes ptr
  | E_shape_repr ptr
  | E_buffer_alloc string int64_t
  | E_buffer_mmap_current ptr
  | E_buffer_mmap_discard ptr
  | E_view_data ptr
  | E_view_size ptr
  | E_view_writeback ptr
  | E_free resource ptr

text \<open>
  The foreign functions the modelled part of the header calls. The arrays handed to
  \<^verbatim>\<open>plaidml_shape_alloc\<close> are passed as the lists of their first \<^verbatim>\<open>ndims\<close> elements
  (the two null pointers of the default constructor, with \<^verbatim>\<open>ndims = 0\<close>, as empty
  lists). \<^verbatim>\<open>plaidml_string_ptr\<close> returns the C string that \<^verbatim>\<open>std::string\<close> copies.
\<close>

record 'r runtime =
  plaidml_string_ptr :: "ptr \<Rightarrow> 'r world \<Rightarrow> string"
  plaidml_string_free :: "ptr \<Rightarrow> 'r world \<Rightarrow> 'r world"
  plaidml_shape_alloc ::
    "DType \<Rightarrow> nat \<Rightarrow> int64_t list \<Rightarrow> int64_t list \<Rightarrow> 'r world \<Rightarrow> (plaidml_error \<times> ptr) \<times> 'r world"
  plaidml_shape_get_nbytes :: "ptr \<Rightarrow> 'r world \<Rightarrow> (plaidml_error \<times> int64_t) \<times> 'r world"
  plaidml_shape_repr :: "ptr \<Rightarrow> 'r world \<Rightarrow> (plaidml_error \<times> ptr) \<times> 'r world"
  plaidml_shape_free :: "ptr \<Rightarrow> 'r world \<Rightarrow> plaidml_error \<times> 'r world"
  plaidml_buffer_alloc :: "string \<Rightarrow> int64_t \<Rightarrow> 'r world \<Rightarrow> (plaidml_error \<times> ptr) \<times> 'r world"
  plaidml_buffer_free :: "ptr \<Rightarrow> 'r world \<Rightarrow> plaidml_error \<times> 'r world"
  plaidml_buffer_mmap_current :: "ptr \<Rightarrow> 'r world \<Rightarrow> (plaidml_error \<times> ptr) \<times> 'r world"
  plaidml_buffer_mmap_discard :: "ptr \<Rightarrow> 'r world \<Rightarrow> (plaidml_error \<times> ptr) \<times> 'r world"
  plaidml_view_data :: "ptr \<Rightarrow> 'r world \<Rightarrow> (plaidml_error \<times> nat) \<times> 'r world"
  plaidml_view_size :: "ptr \<Rightarrow> 'r world \<Rightarrow> (plaidml_error \<times> nat) \<times> 'r world"
  plaidml_view_writeback :: "ptr \<Rightarrow> 'r world \<Rightarrow> plaidml_error \<times> 'r world"
  plaidml_view_free :: "ptr \<Rightarrow> 'r world \<Rightarrow> plaidml_error \<times> 'r world"

text \<open>
  The control block of a \<^verbatim>\<open>std::shared_ptr\<close> made with a custom deleter: the pointer
  it was made from, the deleter (here: which foreign free function the
  \<^verbatim>\<open>Deleter\<close> holds) and the number of owners.
\<close>

record ctrl_block =
  raw :: ptr
  deleter :: resource
  use_count :: nat

text \<open>
  A \<^verbatim>\<open>std::shared_ptr\<close> value: the stored pointer (what \<^verbatim>\<open>get()\<close> returns) and its
  control block, if it has one. A default-constructed one stores \<^verbatim>\<open>nullptr\<close> and has
  none.
\<close>

record shared_ptr =
  stored :: ptr
  ctrl :: "nat option"

definition empty_shared_ptr :: shared_ptr where
  "empty_shared_ptr = \<lparr>stored = 0, ctrl = None\<rparr>"

record 'r state =
  host :: memory
  foreign :: 'r
  trace :: "ffi_event list"
  blocks :: "ctrl_block list"

type_synonym ('r, 'a) ffi = "'r state \<Rightarrow> (failure + 'a) \<times> 'r state"

definition return :: "'a \<Rightarrow> ('r, 'a) ffi" where
  "return a s = (Inr a, s)"

definition throw :: "failure \<Rightarrow> ('r, 'a) ffi" where
  "throw e s = (Inl e, s)"

text \<open>Sequencing: an exception of the first computation skips the second.\<close>

definition bind :: "('r, 'a) ffi \<Rightarrow> ('a \<Rightarrow> ('r, 'b) ffi) \<Rightarrow> ('r, 'b) ffi" where
  "bind m f s = (case m s of (Inl e, s') \<Rightarrow> (Inl e, s') | (Inr a, s') \<Rightarrow> f a s')"

text \<open>The events a computation added to the trace.\<close>

definition new_events :: "'r state \<Rightarrow> 'r state \<Rightarrow> ffi_event list" where
  "new_events s s' = drop (length (trace s)) (trace s')"

text \<open>
  A failure that comes from the error bridge has consumed a foreign message: among the
  events of the computation is the release of a foreign string.
\<close>

fun is_string_free :: "ffi_event \<Rightarrow> bool" where
  "is_string_free (E_string_free p) = True"
| "is_string_free e = False"

definition failure_from_bridge :: "'r state \<Rightarrow> (failure + 'a) \<times> 'r state \<Rightarrow> bool" where
  "failure_from_bridge s out =
     (case fst out of
        Inl e \<Rightarrow> list_ex is_string_free (new_events s (snd out))
      | Inr a \<Rightarrow> True)"

subsection \<open>\<^verbatim>\<open>namespace ffi\<close>: the error bridge\<close>

text \<open>
  \<^verbatim>\<open>std::string ret{plaidml_string_ptr(ptr)}; plaidml_string_free(ptr); return ret;\<close>
\<close>

definition str :: "'r runtime \<Rightarrow> ptr \<Rightarrow> 'r state \<Rightarrow> string \<times> 'r state" where
  "str rt p s =
     (let ret = plaidml_string_ptr rt p (host s, foreign s);
          w = plaidml_string_free rt p (host s, foreign s)
      in (ret, s\<lparr>host := fst w, foreign := snd w,
                 trace := trace s @ [E_string_ptr p, E_string_free p]\<rparr>))"

text \<open>
  \<^verbatim>\<open>call<T>(fn, args...)\<close>: \<open>fn\<close> is the foreign function applied to its arguments, \<open>ev\<close>
  the event that names the invocation.
\<close>

definition call ::
  "'r runtime \<Rightarrow> ffi_event \<Rightarrow> ('r world \<Rightarrow> (plaidml_error \<times> 'a) \<times> 'r world) \<Rightarrow> ('r, 'a) ffi" where
  "call rt ev fn s =
     (case fn (host s, foreign s) of
        ((err, ret), w) \<Rightarrow>
          (let s1 = s\<lparr>host := fst w, foreign := snd w, trace := trace s @ [ev]\<rparr>
           in if code err \<noteq> 0
              then (case str rt (msg err) s1 of (m, s2) \<Rightarrow> (Inl (runtime_error m), s2))
              else (Inr ret, s1)))"

definition call_void ::
  "'r runtime \<Rightarrow> ffi_event \<Rightarrow> ('r world \<Rightarrow> plaidml_error \<times> 'r world) \<Rightarrow> ('r, unit) ffi" where
  "call_void rt ev fn s =
     (case fn (host s, foreign s) of
        (err, w) \<Rightarrow>
          (let s1 = s\<lparr>host := fst w, foreign := snd w, trace := trace s @ [ev]\<rparr>
           in if code err \<noteq> 0
              then (case str rt (msg err) s1 of (m, s2) \<Rightarrow> (Inl (runtime_error m), s2))
              else (Inr (), s1)))"

subsection \<open>\<^verbatim>\<open>namespace details\<close>: shared ownership of a foreign resource\<close>

definition free_fn :: "'r runtime \<Rightarrow> resource \<Rightarrow> ptr \<Rightarrow> 'r world \<Rightarrow> plaidml_error \<times> 'r world" where
  "free_fn rt k =
     (case k of
        shape_res \<Rightarrow> plaidml_shape_free rt
      | buffer_res \<Rightarrow> plaidml_buffer_free rt
      | view_res \<Rightarrow> plaidml_view_free rt)"

text \<open>\<^verbatim>\<open>void operator()(T* ptr) { ffi::call_void(fn, ptr); }\<close>\<close>

definition Deleter :: "'r runtime \<Rightarrow> resource \<Rightarrow> ptr \<Rightarrow> ('r, unit) ffi" where
  "Deleter rt k p = call_void rt (E_free k p) (free_fn rt k p)"

text \<open>
  \<^verbatim>\<open>std::shared_ptr<T>(ptr, Deleter<T>{fn})\<close>: a new control block with one owner.
  (The allocation of the control block is taken to succeed.)
\<close>

definition shared_ptr_make :: "ptr \<Rightarrow> resource \<Rightarrow> 'r state \<Rightarrow> shared_ptr \<times> 'r state" where
  "shared_ptr_make p k s =
     (\<lparr>stored = p, ctrl = Some (length (blocks s))\<rparr>,
      s\<lparr>blocks := blocks s @ [\<lparr>raw = p, deleter = k, use_count = 1\<rparr>]\<rparr>)"

definition make_plaidml_shape :: "ptr \<Rightarrow> 'r state \<Rightarrow> shared_ptr \<times> 'r state" where
  "make_plaidml_shape p = shared_ptr_make p shape_res"

definition make_plaidml_buffer :: "ptr \<Rightarrow> 'r state \<Rightarrow> shared_ptr \<times> 'r state" where
  "make_plaidml_buffer p = shared_ptr_make p buffer_res"

definition make_plaidml_view :: "ptr \<Rightarrow> 'r state \<Rightarrow> shared_ptr \<times> 'r state" where
  "make_plaidml_view p = shared_ptr_make p view_res"

text \<open>
  Copy construction of a \<^verbatim>\<open>std::shared_ptr\<close>: one more owner. Only a live owner can
  be copied, so a block with no owner left is never copied from; the model leaves the
  state unchanged there.
\<close>

definition shared_ptr_copy :: "shared_ptr \<Rightarrow> 'r state \<Rightarrow> shared_ptr \<times> 'r state" where
  "shared_ptr_copy sp s =
     (case ctrl sp of
        None \<Rightarrow> (sp, s)
      | Some b \<Rightarrow>
          if b < length (blocks s) \<and> 0 < use_count (blocks s ! b)
          then (sp, s\<lparr>blocks := (blocks s)[b := (blocks s ! b)\<lparr>use_count := Suc (use_count (blocks s ! b))\<rparr>]\<rparr>)
          else (sp, s))"

text \<open>
  Destruction of a \<^verbatim>\<open>std::shared_ptr\<close>: one owner less, and the last owner runs the
  deleter on the pointer the block was made from. An exception of the deleter leaves
  a \<^verbatim>\<open>noexcept\<close> destructor.
\<close>

definition shared_ptr_release :: "'r runtime \<Rightarrow> shared_ptr \<Rightarrow> ('r, unit) ffi" where
  "shared_ptr_release rt sp s =
     (case ctrl sp of
        None \<Rightarrow> (Inr (), s)
      | Some b \<Rightarrow>
          if b < length (blocks s) \<and> 0 < use_count (blocks s ! b)
          then
            (let blk = blocks s ! b;
                 s1 = s\<lparr>blocks := (blocks s)[b := blk\<lparr>use_count := use_count blk - 1\<rparr>]\<rparr>
             in if use_count blk = 1
                then (case Deleter rt (deleter blk) (raw blk) s1 of
                        (Inl (runtime_error m), s2) \<Rightarrow> (Inl (terminate m), s2)
                      | (Inl (terminate m), s2) \<Rightarrow> (Inl (terminate m), s2)
                      | (Inr u, s2) \<Rightarrow> (Inr (), s2))
                else (Inr (), s1))
          else (Inr (), s))"

text \<open>The events that are invocations of a foreign free function by a deleter.\<close>

fun is_free :: "ffi_event \<Rightarrow> bool" where
  "is_free (E_free k p) = True"
| "is_free e = False"

text \<open>A lifetime of one handle: the copies made of it and the owners dropped.\<close>

datatype owner_op = Copy | Drop

fun run_ops :: "'r runtime \<Rightarrow> shared_ptr \<Rightarrow> owner_op list \<Rightarrow> 'r state \<Rightarrow> 'r state" where
  "run_ops rt sp [] s = s"
| "run_ops rt sp (Copy # ops) s = run_ops rt sp ops (snd (shared_ptr_copy sp s))"
| "run_ops rt sp (Drop # ops) s = run_ops rt sp ops (snd (shared_ptr_release rt sp s))"

text \<open>
  The number of owners after a lifetime that starts with \<open>n\<close> owners; \<open>None\<close> when the
  lifetime copies or drops an owner that does not exist, which no program can do.
\<close>

fun owners_after :: "nat \<Rightarrow> owner_op list \<Rightarrow> nat option" where
  "owners_after n [] = Some n"
| "owners_after n (Copy # ops) = (if 0 < n then owners_after (Suc n) ops else None)"
| "owners_after n (Drop # ops) = (if 0 < n then owners_after (n - 1) ops else None)"

subsection \<open>\<^verbatim>\<open>class TensorShape\<close>\<close>

record TensorShape =
  shape_ptr :: shared_ptr

definition lift :: "('r state \<Rightarrow> 'a \<times> 'r state) \<Rightarrow> ('r, 'a) ffi" where
  "lift f s = (case f s of (a, s') \<Rightarrow> (Inr a, s'))"

definition TensorShape_default :: "'r runtime \<Rightarrow> ('r, TensorShape) ffi" where
  "TensorShape_default rt =
     bind (call rt (E_shape_alloc INVALID 0 [] []) (plaidml_shape_alloc rt INVALID 0 [] []))
       (\<lambda>p. bind (lift (make_plaidml_shape p)) (\<lambda>sp. return \<lparr>shape_ptr = sp\<rparr>))"

text \<open>
  \<^verbatim>\<open>for (int i = sizes.size() - 1; i >= 0; --i) { strides[i] = stride; stride *= sizes[i]; }\<close>
  with \<^verbatim>\<open>size_t stride\<close>: the product wraps around at 64 bits, and the conversions
  between \<^verbatim>\<open>size_t\<close> and \<^verbatim>\<open>int64_t\<close> keep the bits. Whenever the body runs, \<open>i\<close> is
  the low 31 bits of \<^verbatim>\<open>sizes.size() - 1\<close> or less, an index of both vectors.
\<close>

function strides_loop :: "int \<Rightarrow> int64_t list \<Rightarrow> int64_t \<Rightarrow> int64_t list \<Rightarrow> int64_t list" where
  "strides_loop i sizes stride strides =
     (if 0 \<le> i
      then strides_loop (i - 1) sizes (stride * sizes ! nat i) (strides[nat i := stride])
      else strides)"
  by pat_completeness auto
termination
  by (relation "measure (\<lambda>(i, sizes, stride, strides). nat (i + 1))") auto

declare strides_loop.simps [simp del]

text \<open>
  \<^verbatim>\<open>size_t stride = 1; std::vector<int64_t> strides(sizes.size());\<close> and the loop.
  \<^verbatim>\<open>sizes.size() - 1\<close> is computed in \<^verbatim>\<open>size_t\<close> and converted to \<^verbatim>\<open>int\<close>: its low 32
  bits, read as two's complement.
\<close>

definition row_major_strides :: "int64_t list \<Rightarrow> int64_t list" where
  "row_major_strides sizes =
     strides_loop (sint (word_of_nat (length sizes) - 1 :: 32 word)) sizes 1
       (replicate (length sizes) 0)"

definition TensorShape_sizes :: "'r runtime \<Rightarrow> DType \<Rightarrow> int64_t list \<Rightarrow> ('r, TensorShape) ffi" where
  "TensorShape_sizes rt dtype sizes =
     (let strides = row_major_strides sizes
      in bind (call rt (E_shape_alloc dtype (length sizes) sizes strides)
                 (plaidml_shape_alloc rt dtype (length sizes) sizes strides))
           (\<lambda>p. bind (lift (make_plaidml_shape p)) (\<lambda>sp. return \<lparr>shape_ptr = sp\<rparr>)))"

definition TensorShape_strides ::
  "'r runtime \<Rightarrow> DType \<Rightarrow> int64_t list \<Rightarrow> int64_t list \<Rightarrow> ('r, TensorShape) ffi" where
  "TensorShape_strides rt dtype sizes strides =
     (if length sizes \<noteq> length strides
      then throw (runtime_error ''Sizes and strides must have the same rank.'')
      else bind (call rt (E_shape_alloc dtype (length sizes) sizes strides)
                   (plaidml_shape_alloc rt dtype (length sizes) sizes strides))
             (\<lambda>p. bind (lift (make_plaidml_shape p)) (\<lambda>sp. return \<lparr>shape_ptr = sp\<rparr>)))"

text \<open>The copy constructor and the destructor of a \<^verbatim>\<open>TensorShape\<close> are those of its member.\<close>

definition TensorShape_copy :: "TensorShape \<Rightarrow> 'r state \<Rightarrow> TensorShape \<times> 'r state" where
  "TensorShape_copy sh s =
     (case shared_ptr_copy (shape_ptr sh) s of (sp, s') \<Rightarrow> (\<lparr>shape_ptr = sp\<rparr>, s'))"

definition TensorShape_nbytes :: "'r runtime \<Rightarrow> TensorShape \<Rightarrow> ('r, int64_t) ffi" where
  "TensorShape_nbytes rt sh =
     call rt (E_shape_get_nbytes (stored (shape_ptr sh)))
       (plaidml_shape_get_nbytes rt (stored (shape_ptr sh)))"

definition TensorShape_str :: "'r runtime \<Rightarrow> TensorShape \<Rightarrow> ('r, string) ffi" where
  "TensorShape_str rt sh =
     bind (call rt (E_shape_repr (stored (shape_ptr sh)))
             (plaidml_shape_repr rt (stored (shape_ptr sh))))
       (\<lambda>p. lift (str rt p))"

text \<open>
  \<^verbatim>\<open>bool operator==(const TensorShape& rhs) const { return str() == rhs.str(); }\<close>
  C++ leaves the order of the two calls of \<^verbatim>\<open>str\<close> open.
\<close>

definition TensorShape_eq ::
  "'r runtime \<Rightarrow> eval_order \<Rightarrow> TensorShape \<Rightarrow> TensorShape \<Rightarrow> ('r, bool) ffi" where
  "TensorShape_eq rt ord lhs rhs =
     (case ord of
        left_first \<Rightarrow>
          bind (TensorShape_str rt lhs) (\<lambda>a. bind (TensorShape_str rt rhs) (\<lambda>b. return (a = b)))
      | right_first \<Rightarrow>
          bind (TensorShape_str rt rhs) (\<lambda>b. bind (TensorShape_str rt lhs) (\<lambda>a. return (a = b))))"

definition TensorShape_as_ptr :: "TensorShape \<Rightarrow> ptr" where
  "TensorShape_as_ptr sh = stored (shape_ptr sh)"

subsection \<open>\<^verbatim>\<open>class View\<close>\<close>

record View =
  view_ptr :: shared_ptr

definition View_data :: "'r runtime \<Rightarrow> View \<Rightarrow> ('r, nat) ffi" where
  "View_data rt v =
     call rt (E_view_data (stored (view_ptr v))) (plaidml_view_data rt (stored (view_ptr v)))"

definition View_size :: "'r runtime \<Rightarrow> View \<Rightarrow> ('r, nat) ffi" where
  "View_size rt v =
     call rt (E_view_size (stored (view_ptr v))) (plaidml_view_size rt (stored (view_ptr v)))"

definition View_writeback :: "'r runtime \<Rightarrow> View \<Rightarrow> ('r, unit) ffi" where
  "View_writeback rt v =
     call_void rt (E_view_writeback (stored (view_ptr v)))
       (plaidml_view_writeback rt (stored (view_ptr v)))"

definition View_destroy :: "'r runtime \<Rightarrow> View \<Rightarrow> ('r, unit) ffi" where
  "View_destroy rt v = shared_ptr_release rt (view_ptr v)"

subsection \<open>\<^verbatim>\<open>class Buffer\<close>\<close>

record Buffer =
  buffer_ptr :: shared_ptr
  shape :: TensorShape

text \<open>
  \<^verbatim>\<open>Buffer() = default;\<close> The member \<^verbatim>\<open>ptr_\<close> is an empty \<^verbatim>\<open>shared_ptr\<close>; the member
  \<^verbatim>\<open>shape_\<close> is made by the default constructor of \<^verbatim>\<open>TensorShape\<close>.
\<close>

definition Buffer_default :: "'r runtime \<Rightarrow> ('r, Buffer) ffi" where
  "Buffer_default rt =
     bind (TensorShape_default rt) (\<lambda>sh. return \<lparr>buffer_ptr = empty_shared_ptr, shape = sh\<rparr>)"

text \<open>
  \<^verbatim>\<open>Buffer(device, shape)\<close>: \<^verbatim>\<open>shape.nbytes()\<close> is an argument of the call of
  \<^verbatim>\<open>plaidml_buffer_alloc\<close>, so it is evaluated first.
\<close>

definition Buffer_alloc :: "'r runtime \<Rightarrow> string \<Rightarrow> TensorShape \<Rightarrow> ('r, Buffer) ffi" where
  "Buffer_alloc rt device sh =
     bind (TensorShape_nbytes rt sh)
       (\<lambda>n. bind (call rt (E_buffer_alloc device n) (plaidml_buffer_alloc rt device n))
         (\<lambda>p. bind (lift (make_plaidml_buffer p))
           (\<lambda>sp. bind (lift (TensorShape_copy sh))
             (\<lambda>sh'. return \<lparr>buffer_ptr = sp, shape = sh'\<rparr>))))"

definition Buffer_adopt :: "ptr \<Rightarrow> TensorShape \<Rightarrow> ('r, Buffer) ffi" where
  "Buffer_adopt p sh =
     bind (lift (make_plaidml_buffer p))
       (\<lambda>sp. bind (lift (TensorShape_copy sh)) (\<lambda>sh'. return \<lparr>buffer_ptr = sp, shape = sh'\<rparr>))"

text \<open>The destructor: the members are destroyed in reverse order, \<^verbatim>\<open>shape_\<close> first.\<close>

definition Buffer_destroy :: "'r runtime \<Rightarrow> Buffer \<Rightarrow> ('r, unit) ffi" where
  "Buffer_destroy rt b =
     bind (shared_ptr_release rt (shape_ptr (shape b))) (\<lambda>u. shared_ptr_release rt (buffer_ptr b))"

definition Buffer_as_ptr :: "Buffer \<Rightarrow> ptr" where
  "Buffer_as_ptr b = stored (buffer_ptr b)"

definition mmap_current :: "'r runtime \<Rightarrow> Buffer \<Rightarrow> ('r, View) ffi" where
  "mmap_current rt b =
     bind (call rt (E_buffer_mmap_current (stored (buffer_ptr b)))
             (plaidml_buffer_mmap_current rt (stored (buffer_ptr b))))
       (\<lambda>p. bind (lift (make_plaidml_view p)) (\<lambda>sp. return \<lparr>view_ptr = sp\<rparr>))"

definition mmap_discard :: "'r runtime \<Rightarrow> Buffer \<Rightarrow> ('r, View) ffi" where
  "mmap_discard rt b =
     bind (call rt (E_buffer_mmap_discard (stored (buffer_ptr b)))
             (plaidml_buffer_mmap_discard rt (stored (buffer_ptr b))))
       (\<lambda>p. bind (lift (make_plaidml_view p)) (\<lambda>sp. return \<lparr>view_ptr = sp\<rparr>))"

text \<open>\<^verbatim>\<open>memcpy(dst, src, n)\<close> on the host memory: the \<open>n\<close> bytes at \<open>src\<close> appear at \<open>dst\<close>.\<close>

definition memcpy :: "nat \<Rightarrow> nat \<Rightarrow> nat \<Rightarrow> ('r, unit) ffi" where
  "memcpy dst src n s =
     (Inr (), s\<lparr>host := (\<lambda>a. if dst \<le> a \<and> a < dst + n then host s (src + (a - dst)) else host s a)\<rparr>)"

text \<open>
  The end of a scope that owns a local object: its destructor runs whether the body
  returned or threw; an exception of the destructor ends the program.
\<close>

definition scope_exit :: "('r, 'a) ffi \<Rightarrow> ('r, unit) ffi \<Rightarrow> ('r, 'a) ffi" where
  "scope_exit body dtor s =
     (case body s of
        (r, s1) \<Rightarrow> (case dtor s1 of (Inl e, s2) \<Rightarrow> (Inl e, s2) | (Inr u, s2) \<Rightarrow> (r, s2)))"

text \<open>
  \<^verbatim>\<open>auto view = mmap_current(); memcpy(dst, view.data(), view.size());\<close>
  C++ leaves the order of \<^verbatim>\<open>view.data()\<close> and \<^verbatim>\<open>view.size()\<close> open.
\<close>

definition copy_into :: "'r runtime \<Rightarrow> eval_order \<Rightarrow> Buffer \<Rightarrow> nat \<Rightarrow> ('r, unit) ffi" where
  "copy_into rt ord b dst =
     bind (mmap_current rt b)
       (\<lambda>view. scope_exit
          (case ord of
             left_first \<Rightarrow>
               bind (View_data rt view) (\<lambda>d. bind (View_size rt view) (\<lambda>n. memcpy dst d n))
           | right_first \<Rightarrow>
               bind (View_size rt view) (\<lambda>n. bind (View_data rt view) (\<lambda>d. memcpy dst d n)))
          (View_destroy rt view))"

text \<open>
  \<^verbatim>\<open>auto view = mmap_discard(); memcpy(view.data(), src, view.size()); view.writeback();\<close>
  Again the order of \<^verbatim>\<open>view.data()\<close> and \<^verbatim>\<open>view.size()\<close> is open.
\<close>

definition copy_from :: "'r runtime \<Rightarrow> eval_order \<Rightarrow> Buffer \<Rightarrow> nat \<Rightarrow> ('r, unit) ffi" where
  "copy_from rt ord b src =
     bind (mmap_discard rt b)
       (\<lambda>view. scope_exit
          (case ord of
             left_first \<Rightarrow>
               bind (View_data rt view)
                 (\<lambda>d. bind (View_size rt view)
                   (\<lambda>n. bind (memcpy d src n) (\<lambda>u. View_writeback rt view)))
           | right_first \<Rightarrow>
               bind (View_size rt view)
                 (\<lambda>n. bind (View_data rt view)
                   (\<lambda>d. bind (memcpy d src n) (\<lambda>u. View_writeback rt view))))
          (View_destroy rt view))"

section \<open>A foreign runtime, from the specification\<close>

text \<open>
  The implementation behind \<^verbatim>\<open>ffi.h\<close> is not part of the header. Where a property
  depends on what the foreign functions do, it is stated for the runtime below, which
  follows sections 3, 4.5 and 6 of the specification: handles are fresh non-null
  numbers; an operation on a handle that is not live reports code 1 with a message;
  a successful operation reports code 0 and no message. What the specification leaves
  open is a parameter: the textual representation of a descriptor, its byte size, and
  the host address at which a buffer is mapped.
\<close>

text \<open>
  Modelled from the spec: what section 4.3 and section 6 leave to the runtime (the
  textual representation and the byte size of a descriptor, the place of a mapping).
\<close>

record ref_config =
  repr_of :: "DType \<Rightarrow> int64_t list \<Rightarrow> int64_t list \<Rightarrow> string"
  nbytes_of :: "DType \<Rightarrow> int64_t list \<Rightarrow> int64_t"
  host_addr :: "ptr \<Rightarrow> nat"

text \<open>
  Modelled from the spec: the resources of the runtime, each kind a map from live
  handles: foreign strings, descriptors, the contents of buffers, and views with their
  buffer, host address and mapped byte length.
\<close>

record ref_state =
  next_handle :: nat
  strings :: "ptr \<rightharpoonup> string"
  shapes :: "ptr \<rightharpoonup> DType \<times> int64_t list \<times> int64_t list"
  buffers :: "ptr \<rightharpoonup> byte list"
  views :: "ptr \<rightharpoonup> ptr \<times> nat \<times> nat"

definition load :: "memory \<Rightarrow> nat \<Rightarrow> nat \<Rightarrow> byte list" where
  "load m a n = map m [a ..< a + n]"

definition store :: "memory \<Rightarrow> nat \<Rightarrow> byte list \<Rightarrow> memory" where
  "store m a bs = (\<lambda>x. if a \<le> x \<and> x < a + length bs then bs ! (x - a) else m x)"

definition ok :: plaidml_error where
  "ok = \<lparr>code = 0, msg = 0\<rparr>"

text \<open>
  Modelled from the spec: the error record of a failing foreign operation (section 6:
  a nonzero code guarantees that the message is present), its message a fresh
  foreign string.
\<close>

definition ref_fail :: "string \<Rightarrow> ref_state world \<Rightarrow> plaidml_error \<times> ref_state world" where
  "ref_fail text w =
     (case w of (m, r) \<Rightarrow>
        (\<lparr>code = 1, msg = next_handle r\<rparr>,
         (m, r\<lparr>next_handle := Suc (next_handle r), strings := (strings r)(next_handle r \<mapsto> text)\<rparr>)))"

text \<open>Modelled from the spec: the contents of a foreign string and its release.\<close>

definition ref_string_ptr :: "ptr \<Rightarrow> ref_state world \<Rightarrow> string" where
  "ref_string_ptr p w = (case strings (snd w) p of None \<Rightarrow> [] | Some t \<Rightarrow> t)"

definition ref_string_free :: "ptr \<Rightarrow> ref_state world \<Rightarrow> ref_state world" where
  "ref_string_free p w = (case w of (m, r) \<Rightarrow> (m, r\<lparr>strings := (strings r)(p := None)\<rparr>))"

text \<open>
  Modelled from the spec: shape-allocate(type, rank, extents[], strides[]) gives a
  shape handle; the runtime keeps type, extents and strides.
\<close>

definition ref_shape_alloc ::
  "DType \<Rightarrow> nat \<Rightarrow> int64_t list \<Rightarrow> int64_t list \<Rightarrow> ref_state world
     \<Rightarrow> (plaidml_error \<times> ptr) \<times> ref_state world" where
  "ref_shape_alloc dt n sizes strides w =
     (case w of (m, r) \<Rightarrow>
        ((ok, next_handle r),
         (m, r\<lparr>next_handle := Suc (next_handle r),
               shapes := (shapes r)(next_handle r \<mapsto> (dt, take n sizes, take n strides))\<rparr>)))"

text \<open>
  Modelled from the spec: shape-get-byte-size, the total byte size computed by the
  runtime from type and extents.
\<close>

definition ref_shape_get_nbytes ::
  "ref_config \<Rightarrow> ptr \<Rightarrow> ref_state world \<Rightarrow> (plaidml_error \<times> int64_t) \<times> ref_state world" where
  "ref_shape_get_nbytes cfg p w =
     (case shapes (snd w) p of
        None \<Rightarrow> (case ref_fail ''invalid shape'' w of (e, w') \<Rightarrow> ((e, 0), w'))
      | Some (dt, sizes, strides) \<Rightarrow> ((ok, nbytes_of cfg dt sizes), w))"

text \<open>
  Modelled from the spec: shape-to-string, the textual representation of a
  descriptor, returned as a foreign string.
\<close>

definition ref_shape_repr ::
  "ref_config \<Rightarrow> ptr \<Rightarrow> ref_state world \<Rightarrow> (plaidml_error \<times> ptr) \<times> ref_state world" where
  "ref_shape_repr cfg p w =
     (case shapes (snd w) p of
        None \<Rightarrow> (case ref_fail ''invalid shape'' w of (e, w') \<Rightarrow> ((e, 0), w'))
      | Some (dt, sizes, strides) \<Rightarrow>
          (case w of (m, r) \<Rightarrow>
             ((ok, next_handle r),
              (m, r\<lparr>next_handle := Suc (next_handle r),
                    strings := (strings r)(next_handle r \<mapsto> repr_of cfg dt sizes strides)\<rparr>))))"

text \<open>Modelled from the spec: shape-release(shape handle).\<close>

definition ref_shape_free :: "ptr \<Rightarrow> ref_state world \<Rightarrow> plaidml_error \<times> ref_state world" where
  "ref_shape_free p w =
     (case shapes (snd w) p of
        None \<Rightarrow> ref_fail ''invalid shape'' w
      | Some d \<Rightarrow> (case w of (m, r) \<Rightarrow> (ok, (m, r\<lparr>shapes := (shapes r)(p := None)\<rparr>))))"

text \<open>
  Modelled from the spec: buffer-allocate(device id, byte size) gives a buffer
  handle for a memory resource of that many bytes.
\<close>

definition ref_buffer_alloc ::
  "string \<Rightarrow> int64_t \<Rightarrow> ref_state world \<Rightarrow> (plaidml_error \<times> ptr) \<times> ref_state world" where
  "ref_buffer_alloc device n w =
     (case w of (m, r) \<Rightarrow>
        ((ok, next_handle r),
         (m, r\<lparr>next_handle := Suc (next_handle r),
               buffers := (buffers r)(next_handle r \<mapsto> replicate (unat n) 0)\<rparr>)))"

text \<open>Modelled from the spec: buffer-release(buffer handle).\<close>

definition ref_buffer_free :: "ptr \<Rightarrow> ref_state world \<Rightarrow> plaidml_error \<times> ref_state world" where
  "ref_buffer_free p w =
     (case buffers (snd w) p of
        None \<Rightarrow> ref_fail ''invalid buffer'' w
      | Some c \<Rightarrow> (case w of (m, r) \<Rightarrow> (ok, (m, r\<lparr>buffers := (buffers r)(p := None)\<rparr>))))"

text \<open>
  Modelled from the spec: buffer-map-current gives a view whose initial content
  equals the buffer's content (section 4.5); the mapped byte length is the buffer's.
\<close>

definition ref_buffer_mmap_current ::
  "ref_config \<Rightarrow> ptr \<Rightarrow> ref_state world \<Rightarrow> (plaidml_error \<times> ptr) \<times> ref_state world" where
  "ref_buffer_mmap_current cfg p w =
     (case buffers (snd w) p of
        None \<Rightarrow> (case ref_fail ''invalid buffer'' w of (e, w') \<Rightarrow> ((e, 0), w'))
      | Some c \<Rightarrow>
          (case w of (m, r) \<Rightarrow>
             ((ok, next_handle r),
              (store m (host_addr cfg p) c,
               r\<lparr>next_handle := Suc (next_handle r),
                 views := (views r)(next_handle r \<mapsto> (p, host_addr cfg p, length c))\<rparr>))))"

text \<open>
  Modelled from the spec: buffer-map-discard gives a view whose initial content is
  unspecified (section 4.5): the host memory is left as it is.
\<close>

definition ref_buffer_mmap_discard ::
  "ref_config \<Rightarrow> ptr \<Rightarrow> ref_state world \<Rightarrow> (plaidml_error \<times> ptr) \<times> ref_state world" where
  "ref_buffer_mmap_discard cfg p w =
     (case buffers (snd w) p of
        None \<Rightarrow> (case ref_fail ''invalid buffer'' w of (e, w') \<Rightarrow> ((e, 0), w'))
      | Some c \<Rightarrow>
          (case w of (m, r) \<Rightarrow>
             ((ok, next_handle r),
              (m,
               r\<lparr>next_handle := Suc (next_handle r),
                 views := (views r)(next_handle r \<mapsto> (p, host_addr cfg p, length c))\<rparr>))))"

text \<open>Modelled from the spec: view-data, the host address of the mapped region.\<close>

definition ref_view_data :: "ptr \<Rightarrow> ref_state world \<Rightarrow> (plaidml_error \<times> nat) \<times> ref_state world" where
  "ref_view_data v w =
     (case views (snd w) v of
        None \<Rightarrow> (case ref_fail ''invalid view'' w of (e, w') \<Rightarrow> ((e, 0), w'))
      | Some (b, a, n) \<Rightarrow> ((ok, a), w))"

text \<open>Modelled from the spec: view-size, the mapped byte length of a view.\<close>

definition ref_view_size :: "ptr \<Rightarrow> ref_state world \<Rightarrow> (plaidml_error \<times> nat) \<times> ref_state world" where
  "ref_view_size v w =
     (case views (snd w) v of
        None \<Rightarrow> (case ref_fail ''invalid view'' w of (e, w') \<Rightarrow> ((e, 0), w'))
      | Some (b, a, n) \<Rightarrow> ((ok, n), w))"

text \<open>
  Modelled from the spec: view-commit makes the written content of the view the
  content of the buffer (glossary, Commit).
\<close>

definition ref_view_writeback :: "ptr \<Rightarrow> ref_state world \<Rightarrow> plaidml_error \<times> ref_state world" where
  "ref_view_writeback v w =
     (case views (snd w) v of
        None \<Rightarrow> ref_fail ''invalid view'' w
      | Some (b, a, n) \<Rightarrow>
          (case buffers (snd w) b of
             None \<Rightarrow> ref_fail ''invalid buffer'' w
           | Some c \<Rightarrow>
               (case w of (m, r) \<Rightarrow> (ok, (m, r\<lparr>buffers := (buffers r)(b \<mapsto> load m a n)\<rparr>)))))"

text \<open>Modelled from the spec: view-release(view handle) unmaps.\<close>

definition ref_view_free :: "ptr \<Rightarrow> ref_state world \<Rightarrow> plaidml_error \<times> ref_state world" where
  "ref_view_free v w =
     (case views (snd w) v of
        None \<Rightarrow> ref_fail ''invalid view'' w
      | Some d \<Rightarrow> (case w of (m, r) \<Rightarrow> (ok, (m, r\<lparr>views := (views r)(v := None)\<rparr>))))"

text \<open>Modelled from the spec: the boundary operations of section 6, together.\<close>

definition ref_rt :: "ref_config \<Rightarrow> ref_state runtime" where
  "ref_rt cfg =
     \<lparr>plaidml_string_ptr = ref_string_ptr,
      plaidml_string_free = ref_string_free,
      plaidml_shape_alloc = ref_shape_alloc,
      plaidml_shape_get_nbytes = ref_shape_get_nbytes cfg,
      plaidml_shape_repr = ref_shape_repr cfg,
      plaidml_shape_free = ref_shape_free,
      plaidml_buffer_alloc = ref_buffer_alloc,
      plaidml_buffer_free = ref_buffer_free,
      plaidml_buffer_mmap_current = ref_buffer_mmap_current cfg,
      plaidml_buffer_mmap_discard = ref_buffer_mmap_discard cfg,
      plaidml_view_data = ref_view_data,
      plaidml_view_size = ref_view_size,
      plaidml_view_writeback = ref_view_writeback,
      plaidml_view_free = ref_view_free\<rparr>"

text \<open>
  Modelled from the spec: a runtime that has allocated nothing. No resource, no
  owner, no event; the first handle is 1.
\<close>

definition ref_init :: "ref_state state" where
  "ref_init =
     \<lparr>host = (\<lambda>a. 0),
      foreign = \<lparr>next_handle = 1, strings = Map.empty, shapes = Map.empty,
                 buffers = Map.empty, views = Map.empty\<rparr>,
      trace = [],
      blocks = []\<rparr>"

text \<open>The position of an element type in \<^verbatim>\<open>enum class DType\<close>.\<close>

fun dtype_index :: "DType \<Rightarrow> nat" where
  "dtype_index INVALID = 0"
| "dtype_index BOOLEAN = 1"
| "dtype_index INT8 = 2"
| "dtype_index UINT8 = 3"
| "dtype_index INT16 = 4"
| "dtype_index UINT16 = 5"
| "dtype_index INT32 = 6"
| "dtype_index UINT32 = 7"
| "dtype_index INT64 = 8"
| "dtype_index UINT64 = 9"
| "dtype_index BFLOAT16 = 10"
| "dtype_index FLOAT16 = 11"
| "dtype_index FLOAT32 = 12"
| "dtype_index FLOAT64 = 13"

text \<open>
  Modelled from the spec: one choice of what the specification leaves open, for
  closed examples. The representation lists the position of the type in the
  enumeration, the extents and the strides; the byte size is the product of the
  extents (one byte an element); every buffer is mapped at address 4096.
\<close>

definition simple_config :: ref_config where
  "simple_config =
     \<lparr>repr_of = (\<lambda>dt sizes strides.
        replicate (dtype_index dt) CHR ''t'' @ CHR '':'' # map (\<lambda>w. char_of (unat w)) (sizes @ strides)),
      nbytes_of = (\<lambda>dt sizes. prod_list sizes),
      host_addr = (\<lambda>p. 4096)\<rparr>"

section \<open>Predicates of the properties\<close>

text \<open>
  A computation is bridged when it only adds events to the trace and each of its
  failures has come through the error bridge.
\<close>

definition bridged :: "('r, 'a) ffi \<Rightarrow> bool" where
  "bridged m = (\<forall>s. (\<exists>evs. trace (snd (m s)) = trace s @ evs) \<and> failure_from_bridge s (m s))"

section \<open>Properties\<close>

subsection \<open>Sequencing, outcomes of a call, evaluation\<close>

lemma bind_Inr: "m s = (Inr a, s') \<Longrightarrow> bind m f s = f a s'"
  by (simp add: bind_def)

lemma bind_Inl: "m s = (Inl e, s') \<Longrightarrow> bind m f s = (Inl e, s')"
  by (simp add: bind_def)

lemma bind_assoc: "bind (bind m f) g = bind m (\<lambda>a. bind (f a) g)"
  by (simp add: bind_def fun_eq_iff split: prod.splits sum.splits)

lemma new_events_append [simp]: "trace s' = trace s @ evs \<Longrightarrow> new_events s s' = evs"
  by (simp add: new_events_def)

lemma call_void_outcome:
  "(\<exists>w. call_void rt ev fn s
          = (Inr (), s\<lparr>host := fst w, foreign := snd w, trace := trace s @ [ev]\<rparr>))
   \<or> (\<exists>w m t. call_void rt ev fn s
          = (Inl (runtime_error t),
             s\<lparr>host := fst w, foreign := snd w,
               trace := trace s @ [ev, E_string_ptr m, E_string_free m]\<rparr>))"
proof -
  obtain err w where Pair: "fn (host s, foreign s) = (err, w)"
    by (metis surj_pair)
  show ?thesis
  proof (cases "code err = 0")
    case True
    with Pair have "call_void rt ev fn s
        = (Inr (), s\<lparr>host := fst w, foreign := snd w, trace := trace s @ [ev]\<rparr>)"
      by (simp add: call_void_def)
    then show ?thesis by blast
  next
    case False
    with Pair have "call_void rt ev fn s
        = (Inl (runtime_error (plaidml_string_ptr rt (msg err) w)),
           s\<lparr>host := fst (plaidml_string_free rt (msg err) w),
             foreign := snd (plaidml_string_free rt (msg err) w),
             trace := trace s @ [ev, E_string_ptr (msg err), E_string_free (msg err)]\<rparr>)"
      by (simp add: call_void_def str_def Let_def)
    then show ?thesis by blast
  qed
qed

lemma call_outcome:
  "(\<exists>w ret. call rt ev fn s
          = (Inr ret, s\<lparr>host := fst w, foreign := snd w, trace := trace s @ [ev]\<rparr>))
   \<or> (\<exists>w m t. call rt ev fn s
          = (Inl (runtime_error t),
             s\<lparr>host := fst w, foreign := snd w,
               trace := trace s @ [ev, E_string_ptr m, E_string_free m]\<rparr>))"
proof -
  obtain er w where Pair: "fn (host s, foreign s) = (er, w)"
    by (metis surj_pair)
  obtain err ret where er: "er = (err, ret)"
    by (metis surj_pair)
  show ?thesis
  proof (cases "code err = 0")
    case True
    with Pair er have "call rt ev fn s
        = (Inr ret, s\<lparr>host := fst w, foreign := snd w, trace := trace s @ [ev]\<rparr>)"
      by (simp add: call_def)
    then show ?thesis by blast
  next
    case False
    with Pair er have "call rt ev fn s
        = (Inl (runtime_error (plaidml_string_ptr rt (msg err) w)),
           s\<lparr>host := fst (plaidml_string_free rt (msg err) w),
             foreign := snd (plaidml_string_free rt (msg err) w),
             trace := trace s @ [ev, E_string_ptr (msg err), E_string_free (msg err)]\<rparr>)"
      by (simp add: call_def str_def Let_def)
    then show ?thesis by blast
  qed
qed

text \<open>
  The definitions of the wrapper and of the runtime of the specification, for the
  evaluation of closed examples.
\<close>

lemmas wrapper_defs =
  bind_def return_def throw_def lift_def call_def call_void_def str_def
  Deleter_def free_fn_def shared_ptr_make_def make_plaidml_shape_def make_plaidml_buffer_def
  make_plaidml_view_def shared_ptr_copy_def shared_ptr_release_def
  TensorShape_default_def TensorShape_sizes_def TensorShape_strides_def TensorShape_copy_def
  TensorShape_nbytes_def TensorShape_str_def TensorShape_eq_def
  View_data_def View_size_def View_writeback_def View_destroy_def
  Buffer_default_def Buffer_alloc_def Buffer_destroy_def mmap_current_def mmap_discard_def
  memcpy_def scope_exit_def copy_into_def copy_from_def empty_shared_ptr_def

lemmas ref_defs =
  ref_rt_def ref_fail_def ref_string_ptr_def ref_string_free_def ref_shape_alloc_def
  ref_shape_get_nbytes_def ref_shape_repr_def ref_shape_free_def ref_buffer_alloc_def
  ref_buffer_free_def ref_buffer_mmap_current_def ref_buffer_mmap_discard_def
  ref_view_data_def ref_view_size_def ref_view_writeback_def ref_view_free_def
  ref_init_def simple_config_def ok_def load_def store_def

lemma row_major_strides_one: "row_major_strides [n] = [1]"
  by (simp add: row_major_strides_def strides_loop.simps)

subsection \<open>The error bridge\<close>

text \<open>
  Claim C2. For every invocation of a foreign operation through \<^verbatim>\<open>ffi::call\<close> or
  \<^verbatim>\<open>ffi::call_void\<close>: when the code of the error record is zero, the result of the
  operation is returned unchanged and the only event is the invocation itself (no
  foreign string is read or released); when the code is nonzero, a
  \<^verbatim>\<open>runtime_error\<close> is thrown whose text is the text of the foreign message, and the
  foreign string is released once: the events are the invocation, one read and one
  release of the message, and the world is the one after a single
  \<^verbatim>\<open>plaidml_string_free\<close>.
\<close>

theorem error_bridge:
  assumes "fn (host s, foreign s) = ((err, ret), w)"
    and "gn (host s, foreign s) = (err', w')"
  shows "call rt ev fn s =
           (if code err = 0
            then (Inr ret, s\<lparr>host := fst w, foreign := snd w, trace := trace s @ [ev]\<rparr>)
            else (Inl (runtime_error (plaidml_string_ptr rt (msg err) w)),
                  s\<lparr>host := fst (plaidml_string_free rt (msg err) w),
                    foreign := snd (plaidml_string_free rt (msg err) w),
                    trace := trace s @ [ev, E_string_ptr (msg err), E_string_free (msg err)]\<rparr>))
       \<and> call_void rt ev' gn s =
           (if code err' = 0
            then (Inr (), s\<lparr>host := fst w', foreign := snd w', trace := trace s @ [ev']\<rparr>)
            else (Inl (runtime_error (plaidml_string_ptr rt (msg err') w')),
                  s\<lparr>host := fst (plaidml_string_free rt (msg err') w'),
                    foreign := snd (plaidml_string_free rt (msg err') w'),
                    trace := trace s @ [ev', E_string_ptr (msg err'), E_string_free (msg err')]\<rparr>))"
  using assms by (simp add: call_def call_void_def str_def Let_def)

text \<open>
  At the runtime of the specification: reading a view that does not exist fails with
  the runtime's message, whose string is gone afterwards; allocating and releasing a
  buffer succeeds and touches no string.
\<close>

theorem error_bridge_witness:
  "call (ref_rt simple_config) (E_view_data 7) (ref_view_data 7) ref_init
     = (Inl (runtime_error ''invalid view''),
        ref_init\<lparr>foreign := (foreign ref_init)\<lparr>next_handle := 2\<rparr>,
                 trace := [E_view_data 7, E_string_ptr 1, E_string_free 1]\<rparr>)
   \<and> call_void (ref_rt simple_config) (E_free buffer_res 1) (ref_buffer_free 1)
       (snd (call (ref_rt simple_config) (E_buffer_alloc ''cpu'' 4) (ref_buffer_alloc ''cpu'' 4) ref_init))
     = (Inr (), ref_init\<lparr>foreign := (foreign ref_init)\<lparr>next_handle := 2\<rparr>,
                 trace := [E_buffer_alloc ''cpu'' 4, E_free buffer_res 1]\<rparr>)"
proof -
  let ?rt = "ref_rt simple_config"
  let ?s1 = "ref_init\<lparr>foreign := (foreign ref_init)\<lparr>next_handle := 2, buffers := [1 \<mapsto> replicate 4 0]\<rparr>,
                 trace := [E_buffer_alloc ''cpu'' 4]\<rparr>"
  have f: "ref_view_data 7 (host ref_init, foreign ref_init)
      = ((\<lparr>code = 1, msg = 1\<rparr>, 0),
         (host ref_init, (foreign ref_init)\<lparr>next_handle := 2, strings := [1 \<mapsto> ''invalid view'']\<rparr>))"
    by (simp add: ref_view_data_def ref_fail_def ref_init_def)
  have g: "ref_buffer_free 1 (host ref_init, foreign ref_init)
      = (\<lparr>code = 1, msg = 1\<rparr>,
         (host ref_init, (foreign ref_init)\<lparr>next_handle := 2, strings := [1 \<mapsto> ''invalid buffer'']\<rparr>))"
    by (simp add: ref_buffer_free_def ref_fail_def ref_init_def)
  have h: "ref_buffer_alloc ''cpu'' 4 (host ref_init, foreign ref_init)
      = ((\<lparr>code = 0, msg = 0\<rparr>, 1),
         (host ref_init, (foreign ref_init)\<lparr>next_handle := 2, buffers := [1 \<mapsto> replicate 4 0]\<rparr>))"
    by (simp add: ref_buffer_alloc_def ref_init_def ok_def)
  have k: "ref_buffer_free 1 (host ?s1, foreign ?s1)
      = (\<lparr>code = 0, msg = 0\<rparr>, (host ref_init, (foreign ref_init)\<lparr>next_handle := 2\<rparr>))"
    by (simp add: ref_buffer_free_def ref_init_def ok_def fun_eq_iff)
  have a: "call ?rt (E_view_data 7) (ref_view_data 7) ref_init
     = (Inl (runtime_error ''invalid view''),
        ref_init\<lparr>foreign := (foreign ref_init)\<lparr>next_handle := 2\<rparr>,
                 trace := [E_view_data 7, E_string_ptr 1, E_string_free 1]\<rparr>)"
    using error_bridge [where fn = "ref_view_data 7" and gn = "ref_buffer_free 1" and s = ref_init
        and rt = ?rt and ev = "E_view_data 7" and ev' = "E_free buffer_res 1", OF f g]
    by (simp add: ref_rt_def ref_string_ptr_def ref_string_free_def ref_init_def fun_eq_iff)
  have b: "call ?rt (E_buffer_alloc ''cpu'' 4) (ref_buffer_alloc ''cpu'' 4) ref_init = (Inr 1, ?s1)"
    using error_bridge [where fn = "ref_buffer_alloc ''cpu'' 4" and gn = "ref_buffer_free 1"
        and s = ref_init and rt = ?rt and ev = "E_buffer_alloc ''cpu'' 4"
        and ev' = "E_free buffer_res 1", OF h g]
    by (simp add: ref_init_def)
  have c: "call_void ?rt (E_free buffer_res 1) (ref_buffer_free 1) ?s1
     = (Inr (), ref_init\<lparr>foreign := (foreign ref_init)\<lparr>next_handle := 2\<rparr>,
                 trace := [E_buffer_alloc ''cpu'' 4, E_free buffer_res 1]\<rparr>)"
    using error_bridge [where fn = "\<lambda>w. ((ok, ()), w)" and gn = "ref_buffer_free 1" and s = ?s1
        and rt = ?rt and ev = "E_string_ptr 0" and ev' = "E_free buffer_res 1", OF refl k]
    by (simp add: ref_init_def)
  show ?thesis
    using a b c by simp
qed

subsection \<open>The deleter\<close>

lemma Deleter_blocks: "blocks (snd (Deleter rt k p s)) = blocks s"
  using call_void_outcome [of rt "E_free k p" "free_fn rt k p" s]
  by (auto simp: Deleter_def)

lemma Deleter_frees:
  "\<exists>evs. trace (snd (Deleter rt k p s)) = trace s @ evs \<and> filter is_free evs = [E_free k p]"
  using call_void_outcome [of rt "E_free k p" "free_fn rt k p" s]
  by (auto simp: Deleter_def)

lemma release_outcome:
  "snd (shared_ptr_release rt sp s)
     = (case ctrl sp of
          None \<Rightarrow> s
        | Some b \<Rightarrow>
            if b < length (blocks s) \<and> 0 < use_count (blocks s ! b)
            then if use_count (blocks s ! b) = 1
                 then snd (Deleter rt (deleter (blocks s ! b)) (raw (blocks s ! b))
                        (s\<lparr>blocks := (blocks s)[b := (blocks s ! b)\<lparr>use_count := 0\<rparr>]\<rparr>))
                 else s\<lparr>blocks := (blocks s)[b := (blocks s ! b)\<lparr>use_count := use_count (blocks s ! b) - 1\<rparr>]\<rparr>
            else s)"
  by (simp add: shared_ptr_release_def Let_def split: option.splits prod.splits sum.splits failure.splits)

lemma release_last:
  assumes "ctrl sp = Some b" and "b < length (blocks s)" and "use_count (blocks s ! b) = 1"
  shows "blocks (snd (shared_ptr_release rt sp s)) = (blocks s)[b := (blocks s ! b)\<lparr>use_count := 0\<rparr>]"
    and "\<exists>evs. trace (snd (shared_ptr_release rt sp s)) = trace s @ evs
           \<and> filter is_free evs = [E_free (deleter (blocks s ! b)) (raw (blocks s ! b))]"
proof -
  let ?s1 = "s\<lparr>blocks := (blocks s)[b := (blocks s ! b)\<lparr>use_count := 0\<rparr>]\<rparr>"
  have r: "snd (shared_ptr_release rt sp s)
      = snd (Deleter rt (deleter (blocks s ! b)) (raw (blocks s ! b)) ?s1)"
    using assms by (simp add: release_outcome)
  show "blocks (snd (shared_ptr_release rt sp s)) = (blocks s)[b := (blocks s ! b)\<lparr>use_count := 0\<rparr>]"
    by (simp add: r Deleter_blocks)
  show "\<exists>evs. trace (snd (shared_ptr_release rt sp s)) = trace s @ evs
           \<and> filter is_free evs = [E_free (deleter (blocks s ! b)) (raw (blocks s ! b))]"
    using Deleter_frees [of rt "deleter (blocks s ! b)" "raw (blocks s ! b)" ?s1]
    by (simp add: r)
qed

lemma release_shared:
  assumes "ctrl sp = Some b" and "b < length (blocks s)" and "1 < use_count (blocks s ! b)"
  shows "snd (shared_ptr_release rt sp s)
     = s\<lparr>blocks := (blocks s)[b := (blocks s ! b)\<lparr>use_count := use_count (blocks s ! b) - 1\<rparr>]\<rparr>"
  using assms by (simp add: release_outcome)

lemma copy_live:
  assumes "ctrl sp = Some b" and "b < length (blocks s)" and "0 < use_count (blocks s ! b)"
  shows "snd (shared_ptr_copy sp s)
     = s\<lparr>blocks := (blocks s)[b := (blocks s ! b)\<lparr>use_count := Suc (use_count (blocks s ! b))\<rparr>]\<rparr>"
  using assms by (simp add: shared_ptr_copy_def)

lemma Deleter_exact:
  assumes "free_fn rt k p (host s, foreign s) = (err, w)"
  shows "Deleter rt k p s
       = (if code err = 0
          then (Inr (), s\<lparr>host := fst w, foreign := snd w, trace := trace s @ [E_free k p]\<rparr>)
          else (Inl (runtime_error (plaidml_string_ptr rt (msg err) w)),
                s\<lparr>host := fst (plaidml_string_free rt (msg err) w),
                  foreign := snd (plaidml_string_free rt (msg err) w),
                  trace := trace s @ [E_free k p, E_string_ptr (msg err), E_string_free (msg err)]\<rparr>))"
  using assms by (simp add: Deleter_def call_void_def str_def Let_def)

lemma release_last_exact:
  assumes "ctrl sp = Some b" and "b < length (blocks s)"
    and "blocks s ! b = \<lparr>raw = p, deleter = k, use_count = 1\<rparr>"
    and "free_fn rt k p (host s, foreign s) = (err, w)"
  shows "shared_ptr_release rt sp s
       = (if code err = 0
          then (Inr (),
                s\<lparr>host := fst w, foreign := snd w, trace := trace s @ [E_free k p],
                  blocks := (blocks s)[b := \<lparr>raw = p, deleter = k, use_count = 0\<rparr>]\<rparr>)
          else (Inl (terminate (plaidml_string_ptr rt (msg err) w)),
                s\<lparr>host := fst (plaidml_string_free rt (msg err) w),
                  foreign := snd (plaidml_string_free rt (msg err) w),
                  trace := trace s @ [E_free k p, E_string_ptr (msg err), E_string_free (msg err)],
                  blocks := (blocks s)[b := \<lparr>raw = p, deleter = k, use_count = 0\<rparr>]\<rparr>))"
proof -
  let ?s1 = "s\<lparr>blocks := (blocks s)[b := \<lparr>raw = p, deleter = k, use_count = 0\<rparr>]\<rparr>"
  from assms(4) have "free_fn rt k p (host ?s1, foreign ?s1) = (err, w)" by simp
  from Deleter_exact [OF this] assms(1-3)
  show ?thesis by (simp add: shared_ptr_release_def Let_def)
qed

lemma release_other_block:
  assumes "ctrl sp \<noteq> Some i"
  shows "blocks (snd (shared_ptr_release rt sp s)) ! i = blocks s ! i"
  using assms by (auto simp: release_outcome Deleter_blocks split: option.splits)

lemma release_length: "length (blocks (snd (shared_ptr_release rt sp s))) = length (blocks s)"
  by (simp add: release_outcome Deleter_blocks split: option.splits)



subsection \<open>Shared ownership\<close>

lemma owners_after_zero:
  assumes "owners_after 0 ops = Some m"
  shows "ops = [] \<and> m = 0"
proof (cases ops)
  case Nil
  with assms show ?thesis by simp
next
  case (Cons op rest)
  with assms show ?thesis by (cases op) simp_all
qed

lemma run_ops_lifetime:
  assumes "ctrl sp = Some b" and "b < length (blocks s)"
    and "owners_after (use_count (blocks s ! b)) ops = Some m"
  shows "length (blocks (run_ops rt sp ops s)) = length (blocks s)
       \<and> raw (blocks (run_ops rt sp ops s) ! b) = raw (blocks s ! b)
       \<and> deleter (blocks (run_ops rt sp ops s) ! b) = deleter (blocks s ! b)
       \<and> use_count (blocks (run_ops rt sp ops s) ! b) = m
       \<and> (\<exists>evs. trace (run_ops rt sp ops s) = trace s @ evs
             \<and> filter is_free evs
                 = (if 0 < use_count (blocks s ! b) \<and> m = 0
                    then [E_free (deleter (blocks s ! b)) (raw (blocks s ! b))] else []))"
  using assms
proof (induction ops arbitrary: s)
  case Nil
  then show ?case by auto
next
  case (Cons op ops)
  let ?n = "use_count (blocks s ! b)"
  from Cons.prems(3) have live: "0 < ?n"
    by (cases op) (auto split: if_splits)
  have step: ?case
    if run: "run_ops rt sp (op # ops) s = run_ops rt sp ops s1"
      and len: "length (blocks s1) = length (blocks s)"
      and raw: "raw (blocks s1 ! b) = raw (blocks s ! b)"
      and del: "deleter (blocks s1 ! b) = deleter (blocks s ! b)"
      and tr: "trace s1 = trace s"
      and cnt: "0 < use_count (blocks s1 ! b)"
      and own: "owners_after (use_count (blocks s1 ! b)) ops = Some m"
    for s1
  proof -
    from Cons.prems(2) len have "b < length (blocks s1)" by simp
    from Cons.IH [OF Cons.prems(1) this own]
    show ?thesis unfolding run len raw del tr using cnt live by simp
  qed
  show ?case
  proof (cases op)
    case Copy
    let ?s1 = "s\<lparr>blocks := (blocks s)[b := (blocks s ! b)\<lparr>use_count := Suc ?n\<rparr>]\<rparr>"
    have s1: "snd (shared_ptr_copy sp s) = ?s1"
      using Cons.prems live by (intro copy_live) auto
    show ?thesis
    proof (rule step [of ?s1])
      show "run_ops rt sp (op # ops) s = run_ops rt sp ops ?s1"
        using Copy s1 by simp
      show "owners_after (use_count (blocks ?s1 ! b)) ops = Some m"
        using Cons.prems live Copy by simp
    qed (use Cons.prems(2) in simp_all)
  next
    case Drop
    show ?thesis
    proof (cases "?n = 1")
      case True
      with Cons.prems(3) Drop have "owners_after 0 ops = Some m"
        by simp
      then have ops: "ops = []" and m: "m = 0"
        using owners_after_zero by blast+
      from release_last [OF Cons.prems(1,2) True, of rt]
      show ?thesis using Drop ops m True Cons.prems(2) by simp
    next
      case False
      with live have more: "1 < ?n" by simp
      let ?s1 = "s\<lparr>blocks := (blocks s)[b := (blocks s ! b)\<lparr>use_count := ?n - 1\<rparr>]\<rparr>"
      have s1: "snd (shared_ptr_release rt sp s) = ?s1"
        using Cons.prems more by (intro release_shared) auto
      show ?thesis
      proof (rule step [of ?s1])
        show "run_ops rt sp (op # ops) s = run_ops rt sp ops ?s1"
          using Drop s1 by simp
        show "owners_after (use_count (blocks ?s1 ! b)) ops = Some m"
          using Cons.prems live Drop by simp
        show "0 < use_count (blocks ?s1 ! b)"
          using Cons.prems(2) more by simp
      qed (use Cons.prems(2) in simp_all)
    qed
  qed
qed

lemma run_ops_world:
  assumes "ctrl sp = Some b" and "b < length (blocks s)"
    and "raw (blocks s ! b) = p" and "deleter (blocks s ! b) = k"
    and "owners_after (use_count (blocks s ! b)) ops = Some m"
    and "free_fn rt k p (host s, foreign s) = (err, w)"
  shows "(host (run_ops rt sp ops s), foreign (run_ops rt sp ops s))
           = (if 0 < use_count (blocks s ! b) \<and> m = 0
              then (if code err = 0 then w else plaidml_string_free rt (msg err) w)
              else (host s, foreign s))
       \<and> trace (run_ops rt sp ops s)
           = trace s @
             (if 0 < use_count (blocks s ! b) \<and> m = 0
              then (if code err = 0 then [E_free k p]
                    else [E_free k p, E_string_ptr (msg err), E_string_free (msg err)])
              else [])"
  using assms
proof (induction ops arbitrary: s)
  case Nil
  then show ?case by auto
next
  case (Cons op ops)
  let ?n = "use_count (blocks s ! b)"
  from Cons.prems(5) have live: "0 < ?n"
    by (cases op) (auto split: if_splits)
  have step: ?case
    if run: "run_ops rt sp (op # ops) s = run_ops rt sp ops s1"
      and len: "length (blocks s1) = length (blocks s)"
      and raw: "raw (blocks s1 ! b) = p"
      and del: "deleter (blocks s1 ! b) = k"
      and tr: "trace s1 = trace s"
      and ho: "host s1 = host s"
      and fo: "foreign s1 = foreign s"
      and cnt: "0 < use_count (blocks s1 ! b)"
      and own: "owners_after (use_count (blocks s1 ! b)) ops = Some m"
    for s1
  proof -
    from Cons.prems(2) len have b1: "b < length (blocks s1)" by simp
    from Cons.prems(6) ho fo have "free_fn rt k p (host s1, foreign s1) = (err, w)" by simp
    from Cons.IH [OF Cons.prems(1) b1 raw del own this]
    show ?thesis unfolding run tr ho fo using cnt live by simp
  qed
  show ?case
  proof (cases op)
    case Copy
    let ?s1 = "s\<lparr>blocks := (blocks s)[b := (blocks s ! b)\<lparr>use_count := Suc ?n\<rparr>]\<rparr>"
    have s1: "snd (shared_ptr_copy sp s) = ?s1"
      using Cons.prems live by (intro copy_live) auto
    show ?thesis
    proof (rule step [of ?s1])
      show "run_ops rt sp (op # ops) s = run_ops rt sp ops ?s1"
        using Copy s1 by simp
      show "owners_after (use_count (blocks ?s1 ! b)) ops = Some m"
        using Cons.prems live Copy by simp
    qed (use Cons.prems(2,3,4) in simp_all)
  next
    case Drop
    show ?thesis
    proof (cases "?n = 1")
      case True
      with Cons.prems(5) Drop have "owners_after 0 ops = Some m"
        by simp
      then have ops: "ops = []" and m: "m = 0"
        using owners_after_zero by blast+
      from True Cons.prems(3,4) have blk: "blocks s ! b = \<lparr>raw = p, deleter = k, use_count = 1\<rparr>"
        by (cases "blocks s ! b") simp
      from release_last_exact [OF Cons.prems(1,2) blk Cons.prems(6)]
      show ?thesis using Drop ops m True by simp
    next
      case False
      with live have more: "1 < ?n" by simp
      let ?s1 = "s\<lparr>blocks := (blocks s)[b := (blocks s ! b)\<lparr>use_count := ?n - 1\<rparr>]\<rparr>"
      have s1: "snd (shared_ptr_release rt sp s) = ?s1"
        using Cons.prems more by (intro release_shared) auto
      show ?thesis
      proof (rule step [of ?s1])
        show "run_ops rt sp (op # ops) s = run_ops rt sp ops ?s1"
          using Drop s1 by simp
        show "owners_after (use_count (blocks ?s1 ! b)) ops = Some m"
          using Cons.prems live Drop by simp
        show "0 < use_count (blocks ?s1 ! b)"
          using Cons.prems(2) more by simp
      qed (use Cons.prems(2,3,4) in simp_all)
    qed
  qed
qed

lemma owners_after_balance:
  "owners_after n ops = Some m \<Longrightarrow>
     m + length (filter (\<lambda>x. x = Drop) ops) = n + length (filter (\<lambda>x. x = Copy) ops)"
proof (induction ops arbitrary: n)
  case Nil
  then show ?case by simp
next
  case (Cons op ops)
  show ?case
  proof (cases op)
    case Copy
    with Cons.prems have "0 < n" and "owners_after (Suc n) ops = Some m"
      by (simp_all split: if_splits)
    with Cons.IH [of "Suc n"] Copy show ?thesis by simp
  next
    case Drop
    with Cons.prems have "0 < n" and "owners_after (n - 1) ops = Some m"
      by (simp_all split: if_splits)
    with Cons.IH [of "n - 1"] Drop show ?thesis by simp
  qed
qed

text \<open>
  Claim C7. For every handle made by \<^verbatim>\<open>make_plaidml_shape\<close>, \<^verbatim>\<open>make_plaidml_buffer\<close>
  or \<^verbatim>\<open>make_plaidml_view\<close> from a pointer \<open>p\<close>, and every lifetime of copies and drops
  of it: the handle starts with one owner, every copy adds one owner and every drop
  takes one away. While an owner is left, no foreign function has been invoked and
  the world of the runtime is as it was. When the number of owners has reached zero,
  the free function of the resource (\<^verbatim>\<open>plaidml_shape_free\<close>, \<^verbatim>\<open>plaidml_buffer_free\<close> or
  \<^verbatim>\<open>plaidml_view_free\<close>) has been applied to \<open>p\<close> exactly once: the world is the one that
  a single application to \<open>p\<close> leaves (after the release of the message, when the free
  function reports an error), and the invocation is the only invocation of a free
  function among the events.
\<close>

theorem shared_handle_released_once:
  assumes "(k = shape_res \<and> make_plaidml_shape p s0 = (sp, s1) \<and> fr = plaidml_shape_free rt)
         \<or> (k = buffer_res \<and> make_plaidml_buffer p s0 = (sp, s1) \<and> fr = plaidml_buffer_free rt)
         \<or> (k = view_res \<and> make_plaidml_view p s0 = (sp, s1) \<and> fr = plaidml_view_free rt)"
    and "owners_after 1 ops = Some n"
    and "fr p (host s0, foreign s0) = (err, w)"
  shows "stored sp = p
       \<and> use_count (blocks s1 ! length (blocks s0)) = 1
       \<and> use_count (blocks (run_ops rt sp ops s1) ! length (blocks s0)) = n
       \<and> n + length (filter (\<lambda>x. x = Drop) ops) = 1 + length (filter (\<lambda>x. x = Copy) ops)
       \<and> new_events s1 (run_ops rt sp ops s1)
           = (if n = 0
              then (if code err = 0 then [E_free k p]
                    else [E_free k p, E_string_ptr (msg err), E_string_free (msg err)])
              else [])
       \<and> (host (run_ops rt sp ops s1), foreign (run_ops rt sp ops s1))
           = (if n = 0
              then (if code err = 0 then w else plaidml_string_free rt (msg err) w)
              else (host s0, foreign s0))"
proof -
  let ?b = "length (blocks s0)"
  from assms(1) have mk: "shared_ptr_make p k s0 = (sp, s1)" and fr: "fr = free_fn rt k"
    by (auto simp: make_plaidml_shape_def make_plaidml_buffer_def make_plaidml_view_def
        free_fn_def)
  from mk have sp: "ctrl sp = Some ?b" "stored sp = p"
    and blk: "blocks s1 ! ?b = \<lparr>raw = p, deleter = k, use_count = 1\<rparr>"
    and len: "?b < length (blocks s1)"
    and wo: "host s1 = host s0" "foreign s1 = foreign s0"
    by (auto simp: shared_ptr_make_def)
  have own: "owners_after (use_count (blocks s1 ! ?b)) ops = Some n"
    using assms(2) blk by simp
  have f: "free_fn rt k p (host s1, foreign s1) = (err, w)"
    using assms(3) fr wo by simp
  have r: "raw (blocks s1 ! ?b) = p" and d: "deleter (blocks s1 ! ?b) = k"
    using blk by simp_all
  from run_ops_lifetime [OF sp(1) len own, of rt]
  have cnt: "use_count (blocks (run_ops rt sp ops s1) ! ?b) = n" by blast
  from run_ops_world [OF sp(1) len r d own f] blk wo
  have ev: "new_events s1 (run_ops rt sp ops s1)
           = (if n = 0
              then (if code err = 0 then [E_free k p]
                    else [E_free k p, E_string_ptr (msg err), E_string_free (msg err)])
              else [])"
    and wd: "(host (run_ops rt sp ops s1), foreign (run_ops rt sp ops s1))
           = (if n = 0
              then (if code err = 0 then w else plaidml_string_free rt (msg err) w)
              else (host s0, foreign s0))"
    by (simp_all add: new_events_def)
  from sp(2) blk cnt owners_after_balance [OF assms(2)] ev wd
  show ?thesis by simp
qed

text \<open>
  A buffer of two bytes at the runtime of the specification, its handle copied once:
  after one drop an owner is left, nothing has been invoked and the runtime still has
  the buffer; after the second drop \<^verbatim>\<open>plaidml_buffer_free\<close> has been invoked once and
  the runtime no longer has the buffer.
\<close>

theorem shared_handle_released_once_witness:
  "(let s0 = \<lparr>host = (\<lambda>a. 0),
              foreign = \<lparr>next_handle = 2, strings = Map.empty, shapes = Map.empty,
                         buffers = [1 \<mapsto> [0, 0]], views = Map.empty\<rparr>,
              trace = [E_buffer_alloc ''cpu'' 2], blocks = []\<rparr>;
        sp = fst (make_plaidml_buffer 1 s0);
        s1 = snd (make_plaidml_buffer 1 s0);
        s2 = run_ops (ref_rt simple_config) sp [Copy, Drop] s1;
        s3 = run_ops (ref_rt simple_config) sp [Copy, Drop, Drop] s1
    in use_count (blocks s2 ! 0) = 1 \<and> new_events s1 s2 = []
       \<and> buffers (foreign s2) 1 = Some [0, 0]
       \<and> use_count (blocks s3 ! 0) = 0 \<and> new_events s1 s3 = [E_free buffer_res 1]
       \<and> buffers (foreign s3) 1 = None)"
proof -
  let ?rt = "ref_rt simple_config"
  let ?s0 = "\<lparr>host = (\<lambda>a. 0),
              foreign = \<lparr>next_handle = 2, strings = Map.empty, shapes = Map.empty,
                         buffers = [1 \<mapsto> [0, 0]], views = Map.empty\<rparr>,
              trace = [E_buffer_alloc ''cpu'' 2], blocks = []\<rparr> :: ref_state state"
  let ?sp = "fst (make_plaidml_buffer 1 ?s0)"
  let ?s1 = "snd (make_plaidml_buffer 1 ?s0)"
  let ?w = "(host ?s0, (foreign ?s0)\<lparr>buffers := Map.empty\<rparr>)"
  have mk: "(buffer_res = shape_res \<and> make_plaidml_shape 1 ?s0 = (?sp, ?s1)
              \<and> plaidml_buffer_free ?rt = plaidml_shape_free ?rt)
         \<or> (buffer_res = buffer_res \<and> make_plaidml_buffer 1 ?s0 = (?sp, ?s1)
              \<and> plaidml_buffer_free ?rt = plaidml_buffer_free ?rt)
         \<or> (buffer_res = view_res \<and> make_plaidml_view 1 ?s0 = (?sp, ?s1)
              \<and> plaidml_buffer_free ?rt = plaidml_view_free ?rt)"
    by simp
  have a: "owners_after 1 [Copy, Drop] = Some 1" by simp
  have b: "owners_after 1 [Copy, Drop, Drop] = Some 0" by simp
  have f: "plaidml_buffer_free ?rt 1 (host ?s0, foreign ?s0) = (\<lparr>code = 0, msg = 0\<rparr>, ?w)"
    by (simp add: ref_rt_def ref_buffer_free_def ok_def fun_eq_iff)
  note t2 = shared_handle_released_once [OF mk a f]
  note t3 = shared_handle_released_once [OF mk b f]
  from t2 have "use_count (blocks (run_ops ?rt ?sp [Copy, Drop] ?s1) ! 0) = 1"
    and "new_events ?s1 (run_ops ?rt ?sp [Copy, Drop] ?s1) = []"
    and "foreign (run_ops ?rt ?sp [Copy, Drop] ?s1) = foreign ?s0"
    by simp_all
  moreover from t3 have "use_count (blocks (run_ops ?rt ?sp [Copy, Drop, Drop] ?s1) ! 0) = 0"
    and "new_events ?s1 (run_ops ?rt ?sp [Copy, Drop, Drop] ?s1) = [E_free buffer_res 1]"
    and "foreign (run_ops ?rt ?sp [Copy, Drop, Drop] ?s1) = (foreign ?s0)\<lparr>buffers := Map.empty\<rparr>"
    by simp_all
  ultimately show ?thesis by (simp add: Let_def)
qed

subsection \<open>Views and their buffer\<close>

lemma mapped_view:
  assumes "bind (call rt ev fn) (\<lambda>p. bind (lift (make_plaidml_view p)) (\<lambda>sp. return \<lparr>view_ptr = sp\<rparr>)) s
             = (Inr v, s1)"
  shows "blocks s1 = blocks s @ [\<lparr>raw = stored (view_ptr v), deleter = view_res, use_count = 1\<rparr>]"
    and "ctrl (view_ptr v) = Some (length (blocks s))"
  using assms call_outcome [of rt ev fn s]
  by (auto simp: bind_def lift_def return_def make_plaidml_view_def shared_ptr_make_def)

text \<open>
  Claim C1 says that a view made by a map operation of a buffer holds a strong
  reference to the handle of the buffer, so that the foreign resource of the buffer is
  not released while the view is alive, even when the buffer value is dropped first.
  The class \<^verbatim>\<open>View\<close> has one member, the handle of the foreign view. At the runtime
  of the specification, a buffer of two bytes is allocated, mapped and destroyed
  while the view is alive: the control block of the buffer ends with no owner,
  \<^verbatim>\<open>plaidml_buffer_free\<close> has been invoked on the buffer, the runtime no longer knows
  the buffer, and the view still has its owner.
\<close>

theorem view_keeps_buffer_alive_counterexample:
  "(case bind (TensorShape_sizes (ref_rt simple_config) FLOAT32 [2])
           (\<lambda>sh. bind (Buffer_alloc (ref_rt simple_config) ''cpu'' sh)
             (\<lambda>buf. bind (mmap_current (ref_rt simple_config) buf)
               (\<lambda>view. bind (Buffer_destroy (ref_rt simple_config) buf) (\<lambda>u. return view))))
           ref_init
    of (r, s) \<Rightarrow>
      r = Inr \<lparr>view_ptr = \<lparr>stored = 3, ctrl = Some 2\<rparr>\<rparr>
      \<and> blocks s = [\<lparr>raw = 1, deleter = shape_res, use_count = 1\<rparr>,
                    \<lparr>raw = 2, deleter = buffer_res, use_count = 0\<rparr>,
                    \<lparr>raw = 3, deleter = view_res, use_count = 1\<rparr>]
      \<and> trace s = [E_shape_alloc FLOAT32 1 [2] [1], E_shape_get_nbytes 1, E_buffer_alloc ''cpu'' 2,
                   E_buffer_mmap_current 2, E_free buffer_res 2]
      \<and> buffers (foreign s) 2 = None
      \<and> views (foreign s) 3 = Some (2, 4096, 2))"
  by (simp add: wrapper_defs ref_defs row_major_strides_one Let_def)

text \<open>
  Claim C1, amended. A view made by \<^verbatim>\<open>mmap_current\<close> or \<^verbatim>\<open>mmap_discard\<close> owns a new
  control block for the foreign view and nothing else: every control block that
  existed before the map, the one of the buffer included, is as it was. When the
  \<^verbatim>\<open>Buffer\<close> value is the only owner of its handle and is destroyed while the view is
  alive, and the release of its member \<^verbatim>\<open>shape_\<close> (which the destructor does first)
  returns, then \<^verbatim>\<open>plaidml_buffer_free\<close> is applied to the buffer in the world that
  release left: the destructor returns the world the free function gives when it
  reports success, and ends with the translated message after the release of the
  message otherwise. Either way the buffer handle has no owner left, and the view
  still has its owner.
\<close>

theorem view_owns_only_its_mapping:
  assumes "mmap_current rt b s = (Inr v, s1) \<or> mmap_discard rt b s = (Inr v, s1)"
    and "ctrl (buffer_ptr b) = Some i" and "i < length (blocks s)"
    and "blocks s ! i = \<lparr>raw = stored (buffer_ptr b), deleter = buffer_res, use_count = 1\<rparr>"
    and "ctrl (shape_ptr (shape b)) \<noteq> Some i"
    and "ctrl (shape_ptr (shape b)) \<noteq> Some (length (blocks s))"
    and "shared_ptr_release rt (shape_ptr (shape b)) s1 = (Inr (), s2)"
    and "plaidml_buffer_free rt (stored (buffer_ptr b)) (host s2, foreign s2) = (err, w)"
  shows "blocks s1 = blocks s @ [\<lparr>raw = stored (view_ptr v), deleter = view_res, use_count = 1\<rparr>]
       \<and> ctrl (view_ptr v) = Some (length (blocks s))
       \<and> Buffer_destroy rt b s1
           = (if code err = 0
              then (Inr (),
                    s2\<lparr>host := fst w, foreign := snd w,
                       trace := trace s2 @ [E_free buffer_res (stored (buffer_ptr b))],
                       blocks := (blocks s2)[i := \<lparr>raw = stored (buffer_ptr b),
                                                   deleter = buffer_res, use_count = 0\<rparr>]\<rparr>)
              else (Inl (terminate (plaidml_string_ptr rt (msg err) w)),
                    s2\<lparr>host := fst (plaidml_string_free rt (msg err) w),
                       foreign := snd (plaidml_string_free rt (msg err) w),
                       trace := trace s2 @ [E_free buffer_res (stored (buffer_ptr b)),
                                            E_string_ptr (msg err), E_string_free (msg err)],
                       blocks := (blocks s2)[i := \<lparr>raw = stored (buffer_ptr b),
                                                   deleter = buffer_res, use_count = 0\<rparr>]\<rparr>))
       \<and> use_count (blocks (snd (Buffer_destroy rt b s1)) ! i) = 0
       \<and> use_count (blocks (snd (Buffer_destroy rt b s1)) ! length (blocks s)) = 1"
proof -
  let ?p = "stored (buffer_ptr b)"
  let ?n = "length (blocks s)"
  from assms(1) have bl: "blocks s1 = blocks s @ [\<lparr>raw = stored (view_ptr v), deleter = view_res, use_count = 1\<rparr>]"
    and ct: "ctrl (view_ptr v) = Some ?n"
    unfolding mmap_current_def mmap_discard_def by (auto dest: mapped_view)
  from assms(7) have s2: "snd (shared_ptr_release rt (shape_ptr (shape b)) s1) = s2" by simp
  have len2: "length (blocks s2) = Suc ?n"
    using release_length [of rt "shape_ptr (shape b)" s1] s2 bl by simp
  have bi: "blocks s2 ! i = \<lparr>raw = ?p, deleter = buffer_res, use_count = 1\<rparr>"
    using release_other_block [OF assms(5), of rt s1] s2 bl assms(3,4) by (simp add: nth_append)
  have bv: "blocks s2 ! ?n = \<lparr>raw = stored (view_ptr v), deleter = view_res, use_count = 1\<rparr>"
    using release_other_block [OF assms(6), of rt s1] s2 bl by simp
  have i2: "i < length (blocks s2)" using assms(3) len2 by simp
  have f: "free_fn rt buffer_res ?p (host s2, foreign s2) = (err, w)"
    using assms(8) by (simp add: free_fn_def)
  have d: "Buffer_destroy rt b s1 = shared_ptr_release rt (buffer_ptr b) s2"
    unfolding Buffer_destroy_def
    by (rule bind_Inr [where m = "shared_ptr_release rt (shape_ptr (shape b))", OF assms(7)])
  note r = release_last_exact [OF assms(2) i2 bi f]
  from assms(3) have ne: "i \<noteq> ?n" by simp
  have "use_count (blocks (snd (Buffer_destroy rt b s1)) ! i) = 0"
    unfolding d r using i2 by simp
  moreover have "use_count (blocks (snd (Buffer_destroy rt b s1)) ! ?n) = 1"
    unfolding d r using ne bv by simp
  ultimately show ?thesis using bl ct d r by simp
qed

text \<open>
  At the runtime of the specification: a buffer of two bytes with its descriptor,
  mapped in discard mode and destroyed while the view is alive. The descriptor keeps
  an owner, \<^verbatim>\<open>plaidml_buffer_free\<close> has been applied (the runtime no longer has the
  buffer), and the view still has its owner.
\<close>

theorem view_owns_only_its_mapping_witness:
  "(let rt = ref_rt simple_config;
        b = \<lparr>buffer_ptr = \<lparr>stored = 2, ctrl = Some 1\<rparr>,
             shape = \<lparr>shape_ptr = \<lparr>stored = 1, ctrl = Some 0\<rparr>\<rparr>\<rparr>;
        s = \<lparr>host = (\<lambda>a. 0),
             foreign = \<lparr>next_handle = 3, strings = Map.empty,
                        shapes = [1 \<mapsto> (FLOAT32, [2], [1])],
                        buffers = [2 \<mapsto> [0, 0]], views = Map.empty\<rparr>,
             trace = [],
             blocks = [\<lparr>raw = 1, deleter = shape_res, use_count = 2\<rparr>,
                       \<lparr>raw = 2, deleter = buffer_res, use_count = 1\<rparr>]\<rparr>;
        s1 = snd (mmap_discard rt b s);
        out = Buffer_destroy rt b s1
    in fst (mmap_discard rt b s) = Inr \<lparr>view_ptr = \<lparr>stored = 3, ctrl = Some 2\<rparr>\<rparr>
       \<and> fst out = Inr ()
       \<and> blocks (snd out) = [\<lparr>raw = 1, deleter = shape_res, use_count = 1\<rparr>,
                              \<lparr>raw = 2, deleter = buffer_res, use_count = 0\<rparr>,
                              \<lparr>raw = 3, deleter = view_res, use_count = 1\<rparr>]
       \<and> trace (snd out) = [E_buffer_mmap_discard 2, E_free buffer_res 2]
       \<and> buffers (foreign (snd out)) 2 = None
       \<and> views (foreign (snd out)) 3 = Some (2, 4096, 2))"
proof -
  let ?rt = "ref_rt simple_config"
  let ?b = "\<lparr>buffer_ptr = \<lparr>stored = 2, ctrl = Some 1\<rparr>,
             shape = \<lparr>shape_ptr = \<lparr>stored = 1, ctrl = Some 0\<rparr>\<rparr>\<rparr>"
  let ?v = "\<lparr>view_ptr = \<lparr>stored = 3, ctrl = Some 2\<rparr>\<rparr>"
  let ?f0 = "\<lparr>next_handle = 3, strings = Map.empty,
                        shapes = [1 \<mapsto> (FLOAT32, [2], [1])],
                        buffers = [2 \<mapsto> [0, 0]], views = Map.empty\<rparr>"
  let ?s = "\<lparr>host = (\<lambda>a. 0), foreign = ?f0, trace = [],
             blocks = [\<lparr>raw = 1, deleter = shape_res, use_count = 2\<rparr>,
                       \<lparr>raw = 2, deleter = buffer_res, use_count = 1\<rparr>]\<rparr>"
  let ?f1 = "?f0\<lparr>next_handle := 4, views := [3 \<mapsto> (2, 4096, 2)]\<rparr>"
  let ?s1 = "\<lparr>host = (\<lambda>a. 0), foreign = ?f1, trace = [E_buffer_mmap_discard 2],
             blocks = [\<lparr>raw = 1, deleter = shape_res, use_count = 2\<rparr>,
                       \<lparr>raw = 2, deleter = buffer_res, use_count = 1\<rparr>,
                       \<lparr>raw = 3, deleter = view_res, use_count = 1\<rparr>]\<rparr>"
  let ?s2 = "?s1\<lparr>blocks := [\<lparr>raw = 1, deleter = shape_res, use_count = 1\<rparr>,
                       \<lparr>raw = 2, deleter = buffer_res, use_count = 1\<rparr>,
                       \<lparr>raw = 3, deleter = view_res, use_count = 1\<rparr>]\<rparr>"
  have m: "mmap_discard ?rt ?b ?s = (Inr ?v, ?s1)"
    by (simp add: wrapper_defs ref_defs fun_eq_iff)
  then have m': "mmap_current ?rt ?b ?s = (Inr ?v, ?s1) \<or> mmap_discard ?rt ?b ?s = (Inr ?v, ?s1)"
    by (rule disjI2)
  have sh: "shared_ptr_release ?rt (shape_ptr (shape ?b)) ?s1 = (Inr (), ?s2)"
    by (simp add: shared_ptr_release_def)
  have fr: "plaidml_buffer_free ?rt (stored (buffer_ptr ?b)) (host ?s2, foreign ?s2)
      = (\<lparr>code = 0, msg = 0\<rparr>, (\<lambda>a. 0, ?f1\<lparr>buffers := Map.empty\<rparr>))"
    by (simp add: ref_rt_def ref_buffer_free_def ok_def fun_eq_iff)
  have "Buffer_destroy ?rt ?b ?s1
      = (Inr (), ?s2\<lparr>foreign := ?f1\<lparr>buffers := Map.empty\<rparr>,
                     trace := [E_buffer_mmap_discard 2, E_free buffer_res 2],
                     blocks := [\<lparr>raw = 1, deleter = shape_res, use_count = 1\<rparr>,
                                \<lparr>raw = 2, deleter = buffer_res, use_count = 0\<rparr>,
                                \<lparr>raw = 3, deleter = view_res, use_count = 1\<rparr>]\<rparr>)"
    using view_owns_only_its_mapping [OF m' _ _ _ _ _ sh fr, of 1]
    by simp
  with m show ?thesis by (simp add: Let_def)
qed

subsection \<open>Shape descriptors\<close>

text \<open>
  Claim C5. For all lists of extents and strides of differing lengths, the
  constructor \<^verbatim>\<open>TensorShape(dtype, sizes, strides)\<close> throws (a \<^verbatim>\<open>std::runtime_error\<close>
  with the text "Sizes and strides must have the same rank.") and leaves the state
  as it was: no foreign function has been invoked, \<^verbatim>\<open>plaidml_shape_alloc\<close> least of
  all.
\<close>

theorem rank_mismatch_before_any_call:
  "length sizes \<noteq> length strides \<Longrightarrow>
     TensorShape_strides rt dtype sizes strides s
       = (Inl (runtime_error ''Sizes and strides must have the same rank.''), s)"
  by (simp add: TensorShape_strides_def throw_def)

text \<open>
  Extents of rank 2 with strides of rank 1, at the runtime of the specification.
\<close>

theorem rank_mismatch_before_any_call_witness:
  "TensorShape_strides (ref_rt simple_config) FLOAT32 [2, 3] [1] ref_init
     = (Inl (runtime_error ''Sizes and strides must have the same rank.''), ref_init)
   \<and> new_events ref_init
       (snd (TensorShape_strides (ref_rt simple_config) FLOAT32 [2, 3] [1] ref_init)) = []"
  using rank_mismatch_before_any_call [of "[2, 3]" "[1]" "ref_rt simple_config" FLOAT32 ref_init]
  by (simp add: new_events_def)

lemma strides_loop_neg: "i < 0 \<Longrightarrow> strides_loop i sizes stride strides = strides"
  by (subst strides_loop.simps) simp

lemma strides_loop_step:
  "0 \<le> i \<Longrightarrow> strides_loop i sizes stride strides
     = strides_loop (i - 1) sizes (stride * sizes ! nat i) (strides[nat i := stride])"
  by (subst strides_loop.simps) simp

lemma length_strides_loop: "length (strides_loop i sizes stride strides) = length strides"
proof (induction i sizes stride strides rule: strides_loop.induct)
  case (1 i sizes stride strides)
  show ?case
  proof (cases "0 \<le> i")
    case True
    with 1 show ?thesis by (simp add: strides_loop_step)
  next
    case False
    then show ?thesis by (simp add: strides_loop_neg)
  qed
qed

lemma strides_loop_above:
  "i < int j \<Longrightarrow> strides_loop i sizes stride strides ! j = strides ! j"
proof (induction i sizes stride strides rule: strides_loop.induct)
  case (1 i sizes stride strides)
  show ?case
  proof (cases "0 \<le> i")
    case True
    with 1 have "strides_loop (i - 1) sizes (stride * sizes ! nat i) (strides[nat i := stride]) ! j
        = (strides[nat i := stride]) ! j"
      by simp
    moreover from True 1(2) have "nat i \<noteq> j" by linarith
    ultimately show ?thesis using True by (simp add: strides_loop_step)
  next
    case False
    then show ?thesis by (simp add: strides_loop_neg)
  qed
qed

lemma strides_loop_at:
  assumes "0 \<le> i" and "nat i < length strides"
  shows "strides_loop i sizes stride strides ! nat i = stride"
proof -
  have "strides_loop (i - 1) sizes (stride * sizes ! nat i) (strides[nat i := stride]) ! nat i
      = (strides[nat i := stride]) ! nat i"
    using assms(1) by (intro strides_loop_above) linarith
  then show ?thesis
    using assms by (simp add: strides_loop_step [of i])
qed

lemma strides_loop_law:
  "int (Suc j) \<le> i \<Longrightarrow> nat i < length strides \<Longrightarrow>
     strides_loop i sizes stride strides ! j
       = strides_loop i sizes stride strides ! Suc j * sizes ! Suc j"
proof (induction i sizes stride strides rule: strides_loop.induct)
  case (1 i sizes stride strides)
  from 1(2) have pos: "0 \<le> i" by linarith
  let ?r = "strides_loop (i - 1) sizes (stride * sizes ! nat i) (strides[nat i := stride])"
  show ?case
  proof (cases "int (Suc j) = i")
    case True
    then have j: "nat (i - 1) = j" and i: "nat i = Suc j" by linarith+
    from True 1(3) have "?r ! nat (i - 1) = stride * sizes ! nat i"
      by (intro strides_loop_at) auto
    moreover have "?r ! nat i = (strides[nat i := stride]) ! nat i"
      using pos by (intro strides_loop_above) linarith
    ultimately show ?thesis
      using pos 1(3) by (simp add: strides_loop_step [of i] j i)
  next
    case False
    with 1(2) have "int (Suc j) \<le> i - 1" by linarith
    moreover from 1(3) pos have "nat (i - 1) < length (strides[nat i := stride])" by simp
    ultimately have "?r ! j = ?r ! Suc j * sizes ! Suc j"
      using 1(1) [OF pos] by blast
    then show ?thesis using pos by (simp add: strides_loop_step [of i])
  qed
qed

lemma loop_start:
  assumes "n \<le> 2147483648"
  shows "sint (word_of_nat n - 1 :: 32 word) = int n - 1"
proof (cases n)
  case 0
  then show ?thesis by simp
next
  case (Suc m)
  with assms have m: "m < 2147483648" by linarith
  have "(word_of_nat (Suc m) - 1 :: 32 word) = word_of_nat m" by simp
  moreover have "sint (word_of_nat m :: 32 word) = int m"
    using m by (simp add: signed_of_nat signed_take_bit_int_eq_self)
  ultimately have "sint (word_of_nat (Suc m) - 1 :: 32 word) = int m" by (simp only:)
  then show ?thesis unfolding Suc by linarith
qed

lemma length_row_major_strides: "length (row_major_strides sizes) = length sizes"
  by (simp add: row_major_strides_def length_strides_loop)


lemma row_major_last:
  assumes "length sizes \<le> 2147483648" and "sizes \<noteq> []"
  shows "last (row_major_strides sizes) = 1"
proof -
  let ?n = "length sizes"
  from assms(2) have n: "0 < ?n" by simp
  have i: "sint (word_of_nat ?n - 1 :: 32 word) = int (?n - 1)"
    using loop_start [OF assms(1)] n by linarith
  have "row_major_strides sizes ! nat (int (?n - 1)) = 1"
    unfolding row_major_strides_def i using n by (intro strides_loop_at) simp_all
  moreover have "row_major_strides sizes \<noteq> []"
    using n length_row_major_strides [of sizes] by auto
  ultimately show ?thesis
    by (simp add: last_conv_nth length_row_major_strides)
qed

lemma row_major_step:
  assumes "length sizes \<le> 2147483648" and "Suc i < length sizes"
  shows "row_major_strides sizes ! i = row_major_strides sizes ! Suc i * sizes ! Suc i"
proof -
  let ?n = "length sizes"
  have i: "sint (word_of_nat ?n - 1 :: 32 word) = int (?n - 1)"
    using loop_start [OF assms(1)] assms(2) by linarith
  show ?thesis
    unfolding row_major_strides_def i using assms(2) by (intro strides_loop_law) simp_all
qed

lemma sizes_as_strides:
  "TensorShape_sizes rt dtype sizes = TensorShape_strides rt dtype sizes (row_major_strides sizes)"
  by (simp add: TensorShape_sizes_def TensorShape_strides_def length_row_major_strides Let_def)

text \<open>
  Within the range of \<^verbatim>\<open>int\<close>, that is for at most \<open>2\<^sup>3\<^sup>1\<close> extents, the loop fills every
  stride: the last stride is 1, and each stride is the product, in 64-bit arithmetic,
  of the next stride and the next extent; these strides are handed to
  \<^verbatim>\<open>plaidml_shape_alloc\<close>.
\<close>

lemma row_major_law_in_int_range:
  assumes "length sizes \<le> 2147483648"
  shows "length (row_major_strides sizes) = length sizes
       \<and> (sizes \<noteq> [] \<longrightarrow> last (row_major_strides sizes) = 1)
       \<and> (\<forall>i. Suc i < length sizes \<longrightarrow>
            row_major_strides sizes ! i = row_major_strides sizes ! Suc i * sizes ! Suc i)
       \<and> TensorShape_sizes rt dtype sizes s
           = bind (call rt (E_shape_alloc dtype (length sizes) sizes (row_major_strides sizes))
                     (plaidml_shape_alloc rt dtype (length sizes) sizes (row_major_strides sizes)))
               (\<lambda>p. bind (lift (make_plaidml_shape p)) (\<lambda>sp. return \<lparr>shape_ptr = sp\<rparr>)) s"
  using assms row_major_last row_major_step
  by (simp add: length_row_major_strides TensorShape_sizes_def Let_def)

lemma row_major_strides_example: "row_major_strides [2, 3, 4] = [12, 4, 1]"
  by (simp add: row_major_strides_def strides_loop.simps)

text \<open>
  Claim C4. The claim is that for every list of extents the constructor
  \<^verbatim>\<open>TensorShape(dtype, sizes)\<close> computes row-major strides, the last of them 1. The
  loop index is an \<^verbatim>\<open>int\<close>: for a list of \<open>2\<^sup>3\<^sup>1 + 1\<close> extents, all of them 1,
  \<^verbatim>\<open>sizes.size() - 1\<close> is \<open>2\<^sup>3\<^sup>1\<close>, which is \<open>- 2\<^sup>3\<^sup>1\<close> as an \<^verbatim>\<open>int\<close>; the loop body never
  runs and every stride keeps its initial value 0, where the claim has 1.
\<close>

theorem row_major_strides_beyond_int:
  "row_major_strides (replicate 2147483649 1) = replicate 2147483649 0
   \<and> last (row_major_strides (replicate 2147483649 1)) \<noteq> 1"
proof -
  have "sint (word_of_nat 2147483649 - 1 :: 32 word) < 0"
    by simp
  then have "strides_loop (sint (word_of_nat 2147483649 - 1 :: 32 word)) (replicate 2147483649 1) 1
       (replicate 2147483649 0) = replicate 2147483649 0"
    by (rule strides_loop_neg)
  then have r: "row_major_strides (replicate 2147483649 1) = replicate 2147483649 0"
    unfolding row_major_strides_def length_replicate .
  have "last (replicate 2147483649 (0 :: int64_t)) = 0"
    by (rule last_replicate) simp
  then show ?thesis unfolding r by simp
qed







subsection \<open>Buffers\<close>

lemma trace_shared_ptr_copy [simp]: "trace (snd (shared_ptr_copy sp s)) = trace s"
  by (simp add: shared_ptr_copy_def split: option.splits)

lemma buffer_alloc_events:
  assumes "plaidml_shape_get_nbytes rt (stored (shape_ptr sh)) (host s, foreign s) = ((err, n), w)"
  shows "new_events s (snd (Buffer_alloc rt device sh s))
       = (if code err = 0
          then E_shape_get_nbytes (stored (shape_ptr sh)) # E_buffer_alloc device n
                 # drop 2 (new_events s (snd (Buffer_alloc rt device sh s)))
          else [E_shape_get_nbytes (stored (shape_ptr sh)), E_string_ptr (msg err), E_string_free (msg err)])"
proof (cases "code err = 0")
  case True
  let ?s1 = "s\<lparr>host := fst w, foreign := snd w,
               trace := trace s @ [E_shape_get_nbytes (stored (shape_ptr sh))]\<rparr>"
  from True assms have n: "TensorShape_nbytes rt sh s = (Inr n, ?s1)"
    by (simp add: TensorShape_nbytes_def call_def)
  let ?g = "\<lambda>p. bind (lift (make_plaidml_buffer p))
           (\<lambda>sp. bind (lift (TensorShape_copy sh)) (\<lambda>sh'. return \<lparr>buffer_ptr = sp, shape = sh'\<rparr>))"
  have g: "trace (snd (?g p s')) = trace s'" for p and s' :: "'a state"
    by (simp add: bind_def lift_def return_def make_plaidml_buffer_def shared_ptr_make_def
        TensorShape_copy_def shared_ptr_copy_def split: option.splits)
  have b: "Buffer_alloc rt device sh s
      = bind (call rt (E_buffer_alloc device n) (plaidml_buffer_alloc rt device n)) ?g ?s1"
    unfolding Buffer_alloc_def by (rule bind_Inr [where m = "TensorShape_nbytes rt sh", OF n])
  from call_outcome [of rt "E_buffer_alloc device n" "plaidml_buffer_alloc rt device n" ?s1]
  have "\<exists>evs. trace (snd (Buffer_alloc rt device sh s))
          = trace s @ E_shape_get_nbytes (stored (shape_ptr sh)) # E_buffer_alloc device n # evs"
  proof (elim disjE exE)
    fix w' ret
    assume c: "call rt (E_buffer_alloc device n) (plaidml_buffer_alloc rt device n) ?s1
        = (Inr ret, ?s1\<lparr>host := fst w', foreign := snd w',
             trace := trace ?s1 @ [E_buffer_alloc device n]\<rparr>)"
    show ?thesis
      unfolding b bind_Inr [where m = "call rt (E_buffer_alloc device n) (plaidml_buffer_alloc rt device n)", OF c] g
      by simp
  next
    fix w' m t
    assume c: "call rt (E_buffer_alloc device n) (plaidml_buffer_alloc rt device n) ?s1
        = (Inl (runtime_error t), ?s1\<lparr>host := fst w', foreign := snd w',
             trace := trace ?s1 @ [E_buffer_alloc device n, E_string_ptr m, E_string_free m]\<rparr>)"
    show ?thesis
      unfolding b bind_Inl [where m = "call rt (E_buffer_alloc device n) (plaidml_buffer_alloc rt device n)", OF c]
      by simp
  qed
  then show ?thesis using True by auto
next
  case False
  with assms show ?thesis
    by (simp add: Buffer_alloc_def TensorShape_nbytes_def call_def str_def bind_def Let_def)
qed

lemma ref_buffer_has_nbytes:
  assumes "shapes (foreign r) (stored (shape_ptr sh)) = Some (dt, sizes, strides)"
  shows "\<exists>b r1. Buffer_alloc (ref_rt cfg) device sh r = (Inr b, r1)
           \<and> buffers (foreign r1) (stored (buffer_ptr b))
               = Some (replicate (unat (nbytes_of cfg dt sizes)) 0)
           \<and> fst (bind (mmap_current (ref_rt cfg) b) (View_size (ref_rt cfg)) r1)
               = Inr (unat (nbytes_of cfg dt sizes))"
  using assms
  by (simp add: Buffer_alloc_def TensorShape_nbytes_def TensorShape_copy_def mmap_current_def
      View_size_def bind_def call_def lift_def return_def make_plaidml_buffer_def
      make_plaidml_view_def shared_ptr_make_def shared_ptr_copy_def
      ref_rt_def ref_shape_get_nbytes_def ref_buffer_alloc_def ref_buffer_mmap_current_def
      ref_view_size_def ok_def Let_def split: option.splits)

text \<open>
  Claim C8. For every device and every descriptor \<open>S\<close> whose byte size the runtime
  reports as \<open>n\<close>: the allocating constructor of \<^verbatim>\<open>Buffer\<close> asks the runtime for the byte
  size of \<open>S\<close> and then invokes \<^verbatim>\<open>plaidml_buffer_alloc\<close> with the device and exactly
  \<open>n\<close>; these are its first two foreign calls, for any foreign runtime. At the runtime
  of the specification the buffer allocated so has as many bytes as the byte size of
  \<open>S\<close>, and so has a view of it.
\<close>

theorem buffer_alloc_requests_nbytes:
  assumes "plaidml_shape_get_nbytes rt (stored (shape_ptr sh)) (host s, foreign s) = ((err, n), w)"
    and "code err = 0"
    and "shapes (foreign r) (stored (shape_ptr sh')) = Some (dt, sizes, strides)"
  shows "take 2 (new_events s (snd (Buffer_alloc rt device sh s)))
           = [E_shape_get_nbytes (stored (shape_ptr sh)), E_buffer_alloc device n]
       \<and> fst (TensorShape_nbytes rt sh s) = Inr n
       \<and> fst (TensorShape_nbytes (ref_rt cfg) sh' r) = Inr (nbytes_of cfg dt sizes)
       \<and> (\<exists>b r1. Buffer_alloc (ref_rt cfg) device sh' r = (Inr b, r1)
             \<and> buffers (foreign r1) (stored (buffer_ptr b))
                 = Some (replicate (unat (nbytes_of cfg dt sizes)) 0)
             \<and> fst (bind (mmap_current (ref_rt cfg) b) (View_size (ref_rt cfg)) r1)
                 = Inr (unat (nbytes_of cfg dt sizes)))"
proof -
  have "take 2 (new_events s (snd (Buffer_alloc rt device sh s)))
           = [E_shape_get_nbytes (stored (shape_ptr sh)), E_buffer_alloc device n]"
    by (subst buffer_alloc_events [OF assms(1)]) (simp add: assms(2))
  moreover have "fst (TensorShape_nbytes rt sh s) = Inr n"
    using assms(1,2) by (simp add: TensorShape_nbytes_def call_def)
  moreover have "fst (TensorShape_nbytes (ref_rt cfg) sh' r) = Inr (nbytes_of cfg dt sizes)"
    using assms(3)
    by (simp add: TensorShape_nbytes_def call_def ref_rt_def ref_shape_get_nbytes_def ok_def)
  ultimately show ?thesis
    using ref_buffer_has_nbytes [OF assms(3), of cfg device] by blast
qed

text \<open>
  A descriptor of 2 by 3 elements of one byte each: the request is for 6 bytes, and a
  view of the buffer has size 6.
\<close>

theorem buffer_alloc_requests_nbytes_witness:
  "take 2 (new_events
       \<lparr>host = (\<lambda>a. 0),
        foreign = \<lparr>next_handle = 2, strings = Map.empty,
                   shapes = [1 \<mapsto> (FLOAT32, [2, 3], [3, 1])],
                   buffers = Map.empty, views = Map.empty\<rparr>,
        trace = [E_shape_alloc FLOAT32 2 [2, 3] [3, 1]],
        blocks = [\<lparr>raw = 1, deleter = shape_res, use_count = 1\<rparr>]\<rparr>
       (snd (Buffer_alloc (ref_rt simple_config) ''cpu'' \<lparr>shape_ptr = \<lparr>stored = 1, ctrl = Some 0\<rparr>\<rparr>
          \<lparr>host = (\<lambda>a. 0),
           foreign = \<lparr>next_handle = 2, strings = Map.empty,
                      shapes = [1 \<mapsto> (FLOAT32, [2, 3], [3, 1])],
                      buffers = Map.empty, views = Map.empty\<rparr>,
           trace = [E_shape_alloc FLOAT32 2 [2, 3] [3, 1]],
           blocks = [\<lparr>raw = 1, deleter = shape_res, use_count = 1\<rparr>]\<rparr>)))
     = [E_shape_get_nbytes 1, E_buffer_alloc ''cpu'' 6]
   \<and> fst (bind (Buffer_alloc (ref_rt simple_config) ''cpu'' \<lparr>shape_ptr = \<lparr>stored = 1, ctrl = Some 0\<rparr>\<rparr>)
            (\<lambda>b. bind (mmap_current (ref_rt simple_config) b) (View_size (ref_rt simple_config)))
          \<lparr>host = (\<lambda>a. 0),
           foreign = \<lparr>next_handle = 2, strings = Map.empty,
                      shapes = [1 \<mapsto> (FLOAT32, [2, 3], [3, 1])],
                      buffers = Map.empty, views = Map.empty\<rparr>,
           trace = [E_shape_alloc FLOAT32 2 [2, 3] [3, 1]],
           blocks = [\<lparr>raw = 1, deleter = shape_res, use_count = 1\<rparr>]\<rparr>) = Inr 6"
proof -
  let ?rt = "ref_rt simple_config"
  let ?sh = "\<lparr>shape_ptr = \<lparr>stored = 1, ctrl = Some 0\<rparr>\<rparr>"
  let ?r = "\<lparr>host = (\<lambda>a. 0),
           foreign = \<lparr>next_handle = 2, strings = Map.empty,
                      shapes = [1 \<mapsto> (FLOAT32, [2, 3], [3, 1])],
                      buffers = Map.empty, views = Map.empty\<rparr>,
           trace = [E_shape_alloc FLOAT32 2 [2, 3] [3, 1]],
           blocks = [\<lparr>raw = 1, deleter = shape_res, use_count = 1\<rparr>]\<rparr>"
  have n: "plaidml_shape_get_nbytes ?rt (stored (shape_ptr ?sh)) (host ?r, foreign ?r)
      = ((\<lparr>code = 0, msg = 0\<rparr>, 6), (host ?r, foreign ?r))"
    by (simp add: ref_rt_def ref_shape_get_nbytes_def simple_config_def ok_def)
  have c: "code \<lparr>code = 0, msg = 0\<rparr> = 0" by simp
  have sh: "shapes (foreign ?r) (stored (shape_ptr ?sh)) = Some (FLOAT32, [2, 3], [3, 1])"
    by simp
  have six: "nbytes_of simple_config FLOAT32 [2, 3] = 6" by (simp add: simple_config_def)
  note t = buffer_alloc_requests_nbytes [OF n c sh, where device = "''cpu''" and cfg = simple_config]
  from t have a: "take 2 (new_events ?r (snd (Buffer_alloc ?rt ''cpu'' ?sh ?r)))
      = [E_shape_get_nbytes 1, E_buffer_alloc ''cpu'' 6]"
    by simp
  from t obtain b r1 where al: "Buffer_alloc ?rt ''cpu'' ?sh ?r = (Inr b, r1)"
    and sz: "fst (bind (mmap_current ?rt b) (View_size ?rt) r1) = Inr (unat (nbytes_of simple_config FLOAT32 [2, 3]))"
    by blast
  have "bind (Buffer_alloc ?rt ''cpu'' ?sh)
            (\<lambda>b. bind (mmap_current ?rt b) (View_size ?rt)) ?r
      = bind (mmap_current ?rt b) (View_size ?rt) r1"
    by (rule bind_Inr [where m = "Buffer_alloc ?rt ''cpu'' ?sh", OF al])
  with sz have "fst (bind (Buffer_alloc ?rt ''cpu'' ?sh)
            (\<lambda>b. bind (mmap_current ?rt b) (View_size ?rt)) ?r) = Inr 6"
    by (simp add: six)
  with a show ?thesis by simp
qed

lemma bridgedI:
  assumes "\<And>s. \<exists>evs. trace (snd (m s)) = trace s @ evs
              \<and> (\<forall>e. fst (m s) = Inl e \<longrightarrow> list_ex is_string_free evs)"
  shows "bridged m"
  unfolding bridged_def failure_from_bridge_def
proof (intro allI conjI)
  fix s
  from assms [of s] obtain evs where t: "trace (snd (m s)) = trace s @ evs"
    and f: "\<forall>e. fst (m s) = Inl e \<longrightarrow> list_ex is_string_free evs" by blast
  from t show "\<exists>evs. trace (snd (m s)) = trace s @ evs" by blast
  from t f show "case fst (m s) of Inl e \<Rightarrow> list_ex is_string_free (new_events s (snd (m s))) | Inr a \<Rightarrow> True"
    by (cases "fst (m s)") simp_all
qed

lemma bridgedD:
  assumes "bridged m"
  obtains evs where "trace (snd (m s)) = trace s @ evs"
    and "\<And>e. fst (m s) = Inl e \<Longrightarrow> list_ex is_string_free evs"
proof -
  from assms obtain evs where t: "trace (snd (m s)) = trace s @ evs"
    and f: "failure_from_bridge s (m s)"
    unfolding bridged_def by blast
  have "list_ex is_string_free evs" if "fst (m s) = Inl e" for e
    using f t that by (simp add: failure_from_bridge_def)
  with t that show ?thesis by blast
qed

lemma bridged_return: "bridged (return a)"
  by (rule bridgedI) (simp add: return_def)

lemma bridged_lift:
  assumes "\<And>s. trace (snd (f s)) = trace s"
  shows "bridged (lift f)"
proof (rule bridgedI)
  fix s
  obtain a s1 where fs: "f s = (a, s1)" by (metis surj_pair)
  with assms [of s] have "trace s1 = trace s" by simp
  with fs show "\<exists>evs. trace (snd (lift f s)) = trace s @ evs
          \<and> (\<forall>e. fst (lift f s) = Inl e \<longrightarrow> list_ex is_string_free evs)"
    by (simp add: lift_def)
qed

lemma bridged_memcpy: "bridged (memcpy dst src n)"
  by (rule bridgedI) (simp add: memcpy_def)

lemma bridged_call: "bridged (call rt ev fn)"
proof (rule bridgedI)
  fix s
  from call_outcome [of rt ev fn s]
  show "\<exists>evs. trace (snd (call rt ev fn s)) = trace s @ evs
          \<and> (\<forall>e. fst (call rt ev fn s) = Inl e \<longrightarrow> list_ex is_string_free evs)"
    by (elim disjE exE) simp_all
qed

lemma bridged_call_void: "bridged (call_void rt ev fn)"
proof (rule bridgedI)
  fix s
  from call_void_outcome [of rt ev fn s]
  show "\<exists>evs. trace (snd (call_void rt ev fn s)) = trace s @ evs
          \<and> (\<forall>e. fst (call_void rt ev fn s) = Inl e \<longrightarrow> list_ex is_string_free evs)"
    by (elim disjE exE) simp_all
qed

lemma bridged_bind:
  assumes m: "bridged m" and f: "\<And>a. bridged (f a)"
  shows "bridged (bind m f)"
proof (rule bridgedI)
  fix s
  obtain r s1 where ms: "m s = (r, s1)" by (metis surj_pair)
  from bridgedD [OF m, of s] ms obtain evs1 where t1: "trace s1 = trace s @ evs1"
    and f1: "\<And>e. r = Inl e \<Longrightarrow> list_ex is_string_free evs1"
    by (metis fst_conv snd_conv)
  show "\<exists>evs. trace (snd (bind m f s)) = trace s @ evs
          \<and> (\<forall>e. fst (bind m f s) = Inl e \<longrightarrow> list_ex is_string_free evs)"
  proof (cases r)
    case (Inl e)
    with ms have "bind m f s = (Inl e, s1)" by (simp add: bind_def)
    with t1 f1 Inl show ?thesis by simp
  next
    case (Inr a)
    with ms have b: "bind m f s = f a s1" by (simp add: bind_def)
    from bridgedD [OF f, of a s1] obtain evs2 where t2: "trace (snd (f a s1)) = trace s1 @ evs2"
      and f2: "\<And>e. fst (f a s1) = Inl e \<Longrightarrow> list_ex is_string_free evs2"
      by blast
    from t1 t2 have "trace (snd (f a s1)) = trace s @ (evs1 @ evs2)" by simp
    moreover from f2 have "\<forall>e. fst (f a s1) = Inl e \<longrightarrow> list_ex is_string_free (evs1 @ evs2)"
      by auto
    ultimately show ?thesis unfolding b by blast
  qed
qed

lemma bridged_scope_exit:
  assumes m: "bridged body" and d: "bridged dtor"
  shows "bridged (scope_exit body dtor)"
proof (rule bridgedI)
  fix s
  obtain r s1 where ms: "body s = (r, s1)" by (metis surj_pair)
  obtain u s2 where ds: "dtor s1 = (u, s2)" by (metis surj_pair)
  from bridgedD [OF m, of s] ms obtain evs1 where t1: "trace s1 = trace s @ evs1"
    and f1: "\<And>e. r = Inl e \<Longrightarrow> list_ex is_string_free evs1"
    by (metis fst_conv snd_conv)
  from bridgedD [OF d, of s1] ds obtain evs2 where t2: "trace s2 = trace s1 @ evs2"
    and f2: "\<And>e. u = Inl e \<Longrightarrow> list_ex is_string_free evs2"
    by (metis fst_conv snd_conv)
  have t: "trace s2 = trace s @ (evs1 @ evs2)" using t1 t2 by simp
  show "\<exists>evs. trace (snd (scope_exit body dtor s)) = trace s @ evs
          \<and> (\<forall>e. fst (scope_exit body dtor s) = Inl e \<longrightarrow> list_ex is_string_free evs)"
  proof (cases u)
    case (Inl e)
    with ms ds have "scope_exit body dtor s = (Inl e, s2)" by (simp add: scope_exit_def)
    with t f2 Inl show ?thesis by auto
  next
    case (Inr a)
    with ms ds have "scope_exit body dtor s = (r, s2)" by (simp add: scope_exit_def)
    with t f1 show ?thesis by auto
  qed
qed

lemma bridged_release: "bridged (shared_ptr_release rt sp)"
proof (rule bridgedI)
  fix s
  let ?goal = "\<exists>evs. trace (snd (shared_ptr_release rt sp s)) = trace s @ evs
          \<and> (\<forall>e. fst (shared_ptr_release rt sp s) = Inl e \<longrightarrow> list_ex is_string_free evs)"
  show ?goal
  proof (cases "\<exists>b. ctrl sp = Some b \<and> b < length (blocks s) \<and> use_count (blocks s ! b) = 1")
    case True
    then obtain b where b: "ctrl sp = Some b" "b < length (blocks s)" "use_count (blocks s ! b) = 1"
      by blast
    let ?s1 = "s\<lparr>blocks := (blocks s)[b := (blocks s ! b)\<lparr>use_count := 0\<rparr>]\<rparr>"
    let ?d = "Deleter rt (deleter (blocks s ! b)) (raw (blocks s ! b)) ?s1"
    from bridged_call_void have "bridged (Deleter rt (deleter (blocks s ! b)) (raw (blocks s ! b)))"
      unfolding Deleter_def .
    from bridgedD [OF this, of ?s1] obtain evs where t: "trace (snd ?d) = trace s @ evs"
      and f: "\<And>e. fst ?d = Inl e \<Longrightarrow> list_ex is_string_free evs"
      by auto
    have sn: "snd (shared_ptr_release rt sp s) = snd ?d"
      using b by (simp add: release_outcome)
    have "list_ex is_string_free evs" if "fst (shared_ptr_release rt sp s) = Inl e" for e
    proof -
      from that b obtain e' where "fst ?d = Inl e'"
        by (cases ?d) (auto simp: shared_ptr_release_def Let_def split: sum.splits failure.splits)
      then show ?thesis by (rule f)
    qed
    with t sn show ?thesis by auto
  next
    case False
    then have "shared_ptr_release rt sp s = (Inr (), s) \<or>
        (\<exists>b. shared_ptr_release rt sp s
           = (Inr (), s\<lparr>blocks := (blocks s)[b := (blocks s ! b)\<lparr>use_count := use_count (blocks s ! b) - 1\<rparr>]\<rparr>))"
      by (auto simp: shared_ptr_release_def Let_def split: option.splits)
    then show ?thesis by auto
  qed
qed

lemma trace_shared_ptr_make [simp]: "trace (snd (shared_ptr_make p k s)) = trace s"
  by (simp add: shared_ptr_make_def)

lemma bridged_mmap_current: "bridged (mmap_current rt b)"
  unfolding mmap_current_def make_plaidml_view_def
  by (intro bridged_bind bridged_call bridged_lift bridged_return) simp

lemma bridged_mmap_discard: "bridged (mmap_discard rt b)"
  unfolding mmap_discard_def make_plaidml_view_def
  by (intro bridged_bind bridged_call bridged_lift bridged_return) simp

lemma bridged_copy_into: "bridged (copy_into rt ord b dst)"
proof (cases ord)
  case left_first
  show ?thesis
    unfolding copy_into_def left_first eval_order.case View_data_def View_size_def View_destroy_def
    by (intro bridged_bind bridged_mmap_current bridged_scope_exit bridged_call bridged_memcpy
        bridged_release)
next
  case right_first
  show ?thesis
    unfolding copy_into_def right_first eval_order.case View_data_def View_size_def View_destroy_def
    by (intro bridged_bind bridged_mmap_current bridged_scope_exit bridged_call bridged_memcpy
        bridged_release)
qed

lemma bridged_copy_from: "bridged (copy_from rt ord b src)"
proof (cases ord)
  case left_first
  show ?thesis
    unfolding copy_from_def left_first eval_order.case View_data_def View_size_def
      View_destroy_def View_writeback_def
    by (intro bridged_bind bridged_mmap_discard bridged_scope_exit bridged_call bridged_memcpy
        bridged_release bridged_call_void)
next
  case right_first
  show ?thesis
    unfolding copy_from_def right_first eval_order.case View_data_def View_size_def
      View_destroy_def View_writeback_def
    by (intro bridged_bind bridged_mmap_discard bridged_scope_exit bridged_call bridged_memcpy
        bridged_release bridged_call_void)
qed

lemma map_outcome:
  assumes "fn (host s, foreign s) = ((err, p), w)"
  shows "bind (call rt ev fn) (\<lambda>p. bind (lift (make_plaidml_view p)) (\<lambda>sp. return \<lparr>view_ptr = sp\<rparr>)) s
       = (if code err = 0
          then (Inr \<lparr>view_ptr = \<lparr>stored = p, ctrl = Some (length (blocks s))\<rparr>\<rparr>,
                s\<lparr>host := fst w, foreign := snd w, trace := trace s @ [ev],
                  blocks := blocks s @ [\<lparr>raw = p, deleter = view_res, use_count = 1\<rparr>]\<rparr>)
          else (Inl (runtime_error (plaidml_string_ptr rt (msg err) w)),
                s\<lparr>host := fst (plaidml_string_free rt (msg err) w),
                  foreign := snd (plaidml_string_free rt (msg err) w),
                  trace := trace s @ [ev, E_string_ptr (msg err), E_string_free (msg err)]\<rparr>))"
  using assms
  by (simp add: bind_def call_def str_def lift_def return_def make_plaidml_view_def
      shared_ptr_make_def Let_def)

text \<open>
  Claim C9. A default-constructed \<^verbatim>\<open>Buffer\<close> holds an empty handle, so \<^verbatim>\<open>as_ptr\<close>
  returns the null pointer. \<^verbatim>\<open>mmap_current\<close>, \<^verbatim>\<open>mmap_discard\<close>, \<^verbatim>\<open>copy_into\<close> and
  \<^verbatim>\<open>copy_from\<close> check nothing: in every state each of them applies the foreign map
  function to the null pointer. When that call reports an error, the operation
  throws a \<^verbatim>\<open>runtime_error\<close> whose text is the text of the foreign message, having done
  nothing else than to read and release the message. When it reports success, the
  pointer it returned is wrapped as a view in the world it left: the map operations
  return that view, and the copy operations go on with it (the calls of
  \<^verbatim>\<open>plaidml_view_data\<close> and \<^verbatim>\<open>plaidml_view_size\<close> in either order, the copy, for
  \<^verbatim>\<open>copy_from\<close> the call of \<^verbatim>\<open>plaidml_view_writeback\<close>, and the release of the view).
  Whenever a copy operation fails, it has consumed a message of the foreign runtime.
\<close>

theorem default_buffer_passes_null:
  assumes "Buffer_default rt s0 = (Inr b, s')"
    and "plaidml_buffer_mmap_current rt 0 (host s, foreign s) = ((ec, pc), wc)"
    and "plaidml_buffer_mmap_discard rt 0 (host s, foreign s) = ((ed, pd), wd)"
  shows "buffer_ptr b = empty_shared_ptr \<and> Buffer_as_ptr b = 0
       \<and> mmap_current rt b s
           = (if code ec = 0
              then (Inr \<lparr>view_ptr = \<lparr>stored = pc, ctrl = Some (length (blocks s))\<rparr>\<rparr>,
                    s\<lparr>host := fst wc, foreign := snd wc,
                      trace := trace s @ [E_buffer_mmap_current 0],
                      blocks := blocks s @ [\<lparr>raw = pc, deleter = view_res, use_count = 1\<rparr>]\<rparr>)
              else (Inl (runtime_error (plaidml_string_ptr rt (msg ec) wc)),
                    s\<lparr>host := fst (plaidml_string_free rt (msg ec) wc),
                      foreign := snd (plaidml_string_free rt (msg ec) wc),
                      trace := trace s @ [E_buffer_mmap_current 0, E_string_ptr (msg ec), E_string_free (msg ec)]\<rparr>))
       \<and> mmap_discard rt b s
           = (if code ed = 0
              then (Inr \<lparr>view_ptr = \<lparr>stored = pd, ctrl = Some (length (blocks s))\<rparr>\<rparr>,
                    s\<lparr>host := fst wd, foreign := snd wd,
                      trace := trace s @ [E_buffer_mmap_discard 0],
                      blocks := blocks s @ [\<lparr>raw = pd, deleter = view_res, use_count = 1\<rparr>]\<rparr>)
              else (Inl (runtime_error (plaidml_string_ptr rt (msg ed) wd)),
                    s\<lparr>host := fst (plaidml_string_free rt (msg ed) wd),
                      foreign := snd (plaidml_string_free rt (msg ed) wd),
                      trace := trace s @ [E_buffer_mmap_discard 0, E_string_ptr (msg ed), E_string_free (msg ed)]\<rparr>))
       \<and> copy_into rt ord b dst s
           = (if code ec = 0
              then scope_exit
                     (case ord of
                        left_first \<Rightarrow>
                          bind (call rt (E_view_data pc) (plaidml_view_data rt pc))
                            (\<lambda>d. bind (call rt (E_view_size pc) (plaidml_view_size rt pc))
                              (\<lambda>n. memcpy dst d n))
                      | right_first \<Rightarrow>
                          bind (call rt (E_view_size pc) (plaidml_view_size rt pc))
                            (\<lambda>n. bind (call rt (E_view_data pc) (plaidml_view_data rt pc))
                              (\<lambda>d. memcpy dst d n)))
                     (shared_ptr_release rt \<lparr>stored = pc, ctrl = Some (length (blocks s))\<rparr>)
                     (s\<lparr>host := fst wc, foreign := snd wc,
                      trace := trace s @ [E_buffer_mmap_current 0],
                      blocks := blocks s @ [\<lparr>raw = pc, deleter = view_res, use_count = 1\<rparr>]\<rparr>)
              else (Inl (runtime_error (plaidml_string_ptr rt (msg ec) wc)),
                    s\<lparr>host := fst (plaidml_string_free rt (msg ec) wc),
                      foreign := snd (plaidml_string_free rt (msg ec) wc),
                      trace := trace s @ [E_buffer_mmap_current 0, E_string_ptr (msg ec), E_string_free (msg ec)]\<rparr>))
       \<and> copy_from rt ord b src s
           = (if code ed = 0
              then scope_exit
                     (case ord of
                        left_first \<Rightarrow>
                          bind (call rt (E_view_data pd) (plaidml_view_data rt pd))
                            (\<lambda>d. bind (call rt (E_view_size pd) (plaidml_view_size rt pd))
                              (\<lambda>n. bind (memcpy d src n)
                                (\<lambda>u. call_void rt (E_view_writeback pd) (plaidml_view_writeback rt pd))))
                      | right_first \<Rightarrow>
                          bind (call rt (E_view_size pd) (plaidml_view_size rt pd))
                            (\<lambda>n. bind (call rt (E_view_data pd) (plaidml_view_data rt pd))
                              (\<lambda>d. bind (memcpy d src n)
                                (\<lambda>u. call_void rt (E_view_writeback pd) (plaidml_view_writeback rt pd)))))
                     (shared_ptr_release rt \<lparr>stored = pd, ctrl = Some (length (blocks s))\<rparr>)
                     (s\<lparr>host := fst wd, foreign := snd wd,
                      trace := trace s @ [E_buffer_mmap_discard 0],
                      blocks := blocks s @ [\<lparr>raw = pd, deleter = view_res, use_count = 1\<rparr>]\<rparr>)
              else (Inl (runtime_error (plaidml_string_ptr rt (msg ed) wd)),
                    s\<lparr>host := fst (plaidml_string_free rt (msg ed) wd),
                      foreign := snd (plaidml_string_free rt (msg ed) wd),
                      trace := trace s @ [E_buffer_mmap_discard 0, E_string_ptr (msg ed), E_string_free (msg ed)]\<rparr>))
       \<and> failure_from_bridge s (copy_into rt ord b dst s)
       \<and> failure_from_bridge s (copy_from rt ord b src s)"
proof -
  from assms(1) have e: "buffer_ptr b = empty_shared_ptr"
    by (auto simp: Buffer_default_def bind_def return_def split: prod.splits sum.splits)
  then have z: "stored (buffer_ptr b) = 0" by (simp add: empty_shared_ptr_def)
  note mc = map_outcome [where fn = "plaidml_buffer_mmap_current rt 0" and rt = rt
      and ev = "E_buffer_mmap_current 0", OF assms(2)]
  note md = map_outcome [where fn = "plaidml_buffer_mmap_discard rt 0" and rt = rt
      and ev = "E_buffer_mmap_discard 0", OF assms(3)]
  have a: "mmap_current rt b s
           = (if code ec = 0
              then (Inr \<lparr>view_ptr = \<lparr>stored = pc, ctrl = Some (length (blocks s))\<rparr>\<rparr>,
                    s\<lparr>host := fst wc, foreign := snd wc,
                      trace := trace s @ [E_buffer_mmap_current 0],
                      blocks := blocks s @ [\<lparr>raw = pc, deleter = view_res, use_count = 1\<rparr>]\<rparr>)
              else (Inl (runtime_error (plaidml_string_ptr rt (msg ec) wc)),
                    s\<lparr>host := fst (plaidml_string_free rt (msg ec) wc),
                      foreign := snd (plaidml_string_free rt (msg ec) wc),
                      trace := trace s @ [E_buffer_mmap_current 0, E_string_ptr (msg ec), E_string_free (msg ec)]\<rparr>))"
    unfolding mmap_current_def z by (rule mc)
  have d: "mmap_discard rt b s
           = (if code ed = 0
              then (Inr \<lparr>view_ptr = \<lparr>stored = pd, ctrl = Some (length (blocks s))\<rparr>\<rparr>,
                    s\<lparr>host := fst wd, foreign := snd wd,
                      trace := trace s @ [E_buffer_mmap_discard 0],
                      blocks := blocks s @ [\<lparr>raw = pd, deleter = view_res, use_count = 1\<rparr>]\<rparr>)
              else (Inl (runtime_error (plaidml_string_ptr rt (msg ed) wd)),
                    s\<lparr>host := fst (plaidml_string_free rt (msg ed) wd),
                      foreign := snd (plaidml_string_free rt (msg ed) wd),
                      trace := trace s @ [E_buffer_mmap_discard 0, E_string_ptr (msg ed), E_string_free (msg ed)]\<rparr>))"
    unfolding mmap_discard_def z by (rule md)
  have ci: "copy_into rt ord b dst s
           = (if code ec = 0
              then scope_exit
                     (case ord of
                        left_first \<Rightarrow>
                          bind (call rt (E_view_data pc) (plaidml_view_data rt pc))
                            (\<lambda>d. bind (call rt (E_view_size pc) (plaidml_view_size rt pc))
                              (\<lambda>n. memcpy dst d n))
                      | right_first \<Rightarrow>
                          bind (call rt (E_view_size pc) (plaidml_view_size rt pc))
                            (\<lambda>n. bind (call rt (E_view_data pc) (plaidml_view_data rt pc))
                              (\<lambda>d. memcpy dst d n)))
                     (shared_ptr_release rt \<lparr>stored = pc, ctrl = Some (length (blocks s))\<rparr>)
                     (s\<lparr>host := fst wc, foreign := snd wc,
                      trace := trace s @ [E_buffer_mmap_current 0],
                      blocks := blocks s @ [\<lparr>raw = pc, deleter = view_res, use_count = 1\<rparr>]\<rparr>)
              else (Inl (runtime_error (plaidml_string_ptr rt (msg ec) wc)),
                    s\<lparr>host := fst (plaidml_string_free rt (msg ec) wc),
                      foreign := snd (plaidml_string_free rt (msg ec) wc),
                      trace := trace s @ [E_buffer_mmap_current 0, E_string_ptr (msg ec), E_string_free (msg ec)]\<rparr>))"
  proof (cases "code ec = 0")
    case True
    with a show ?thesis
      by (cases ord)
         (simp_all add: copy_into_def bind_Inr [where m = "mmap_current rt b"]
          View_data_def View_size_def View_destroy_def)
  next
    case False
    with a show ?thesis
      by (simp add: copy_into_def bind_Inl [where m = "mmap_current rt b"])
  qed
  have cf: "copy_from rt ord b src s
           = (if code ed = 0
              then scope_exit
                     (case ord of
                        left_first \<Rightarrow>
                          bind (call rt (E_view_data pd) (plaidml_view_data rt pd))
                            (\<lambda>d. bind (call rt (E_view_size pd) (plaidml_view_size rt pd))
                              (\<lambda>n. bind (memcpy d src n)
                                (\<lambda>u. call_void rt (E_view_writeback pd) (plaidml_view_writeback rt pd))))
                      | right_first \<Rightarrow>
                          bind (call rt (E_view_size pd) (plaidml_view_size rt pd))
                            (\<lambda>n. bind (call rt (E_view_data pd) (plaidml_view_data rt pd))
                              (\<lambda>d. bind (memcpy d src n)
                                (\<lambda>u. call_void rt (E_view_writeback pd) (plaidml_view_writeback rt pd)))))
                     (shared_ptr_release rt \<lparr>stored = pd, ctrl = Some (length (blocks s))\<rparr>)
                     (s\<lparr>host := fst wd, foreign := snd wd,
                      trace := trace s @ [E_buffer_mmap_discard 0],
                      blocks := blocks s @ [\<lparr>raw = pd, deleter = view_res, use_count = 1\<rparr>]\<rparr>)
              else (Inl (runtime_error (plaidml_string_ptr rt (msg ed) wd)),
                    s\<lparr>host := fst (plaidml_string_free rt (msg ed) wd),
                      foreign := snd (plaidml_string_free rt (msg ed) wd),
                      trace := trace s @ [E_buffer_mmap_discard 0, E_string_ptr (msg ed), E_string_free (msg ed)]\<rparr>))"
  proof (cases "code ed = 0")
    case True
    with d show ?thesis
      by (cases ord)
         (simp_all add: copy_from_def bind_Inr [where m = "mmap_discard rt b"]
          View_data_def View_size_def View_destroy_def View_writeback_def)
  next
    case False
    with d show ?thesis
      by (simp add: copy_from_def bind_Inl [where m = "mmap_discard rt b"])
  qed
  from bridged_copy_into [of rt ord b dst] bridged_copy_from [of rt ord b src]
  have "failure_from_bridge s (copy_into rt ord b dst s)"
    and "failure_from_bridge s (copy_from rt ord b src s)"
    unfolding bridged_def by blast+
  with e z a d ci cf show ?thesis by (simp only: Buffer_as_ptr_def simp_thms)
qed

text \<open>
  At the runtime of the specification the default buffer is made, and each
  operation on it fails with the runtime's message for a handle it does not know.
\<close>

theorem default_buffer_passes_null_witness:
  "(let rt = ref_rt simple_config;
        b = \<lparr>buffer_ptr = \<lparr>stored = 0, ctrl = None\<rparr>,
             shape = \<lparr>shape_ptr = \<lparr>stored = 1, ctrl = Some 0\<rparr>\<rparr>\<rparr>
    in fst (Buffer_default rt ref_init) = Inr b
       \<and> Buffer_as_ptr b = 0
       \<and> mmap_current rt b ref_init
         = (Inl (runtime_error ''invalid buffer''),
            ref_init\<lparr>foreign := (foreign ref_init)\<lparr>next_handle := 2\<rparr>,
                     trace := [E_buffer_mmap_current 0, E_string_ptr 1, E_string_free 1]\<rparr>)
       \<and> mmap_discard rt b ref_init
         = (Inl (runtime_error ''invalid buffer''),
            ref_init\<lparr>foreign := (foreign ref_init)\<lparr>next_handle := 2\<rparr>,
                     trace := [E_buffer_mmap_discard 0, E_string_ptr 1, E_string_free 1]\<rparr>)
       \<and> copy_into rt right_first b 200 ref_init
         = (Inl (runtime_error ''invalid buffer''),
            ref_init\<lparr>foreign := (foreign ref_init)\<lparr>next_handle := 2\<rparr>,
                     trace := [E_buffer_mmap_current 0, E_string_ptr 1, E_string_free 1]\<rparr>)
       \<and> copy_from rt left_first b 100 ref_init
         = (Inl (runtime_error ''invalid buffer''),
            ref_init\<lparr>foreign := (foreign ref_init)\<lparr>next_handle := 2\<rparr>,
                     trace := [E_buffer_mmap_discard 0, E_string_ptr 1, E_string_free 1]\<rparr>))"
proof -
  let ?rt = "ref_rt simple_config"
  let ?b = "\<lparr>buffer_ptr = \<lparr>stored = 0, ctrl = None\<rparr>,
             shape = \<lparr>shape_ptr = \<lparr>stored = 1, ctrl = Some 0\<rparr>\<rparr>\<rparr>"
  let ?w = "(host ref_init, (foreign ref_init)\<lparr>next_handle := 2, strings := [1 \<mapsto> ''invalid buffer'']\<rparr>)"
  have f: "fst (Buffer_default ?rt ref_init) = Inr ?b"
    by (simp add: wrapper_defs ref_defs)
  then have d: "Buffer_default ?rt ref_init = (Inr ?b, snd (Buffer_default ?rt ref_init))"
    by (simp add: prod_eq_iff)
  have mc: "plaidml_buffer_mmap_current ?rt 0 (host ref_init, foreign ref_init)
      = ((\<lparr>code = 1, msg = 1\<rparr>, 0), ?w)"
    by (simp add: ref_rt_def ref_buffer_mmap_current_def ref_fail_def ref_init_def)
  have md: "plaidml_buffer_mmap_discard ?rt 0 (host ref_init, foreign ref_init)
      = ((\<lparr>code = 1, msg = 1\<rparr>, 0), ?w)"
    by (simp add: ref_rt_def ref_buffer_mmap_discard_def ref_fail_def ref_init_def)
  note a = default_buffer_passes_null [OF d mc md, where ord = right_first and dst = 200 and src = 100]
  note b = default_buffer_passes_null [OF d mc md, where ord = left_first and dst = 200 and src = 100]
  from a have "Buffer_as_ptr ?b = 0"
    and "mmap_current ?rt ?b ref_init
      = (Inl (runtime_error ''invalid buffer''),
         ref_init\<lparr>foreign := (foreign ref_init)\<lparr>next_handle := 2\<rparr>,
                  trace := [E_buffer_mmap_current 0, E_string_ptr 1, E_string_free 1]\<rparr>)"
    and "mmap_discard ?rt ?b ref_init
      = (Inl (runtime_error ''invalid buffer''),
         ref_init\<lparr>foreign := (foreign ref_init)\<lparr>next_handle := 2\<rparr>,
                  trace := [E_buffer_mmap_discard 0, E_string_ptr 1, E_string_free 1]\<rparr>)"
    and "copy_into ?rt right_first ?b 200 ref_init
      = (Inl (runtime_error ''invalid buffer''),
         ref_init\<lparr>foreign := (foreign ref_init)\<lparr>next_handle := 2\<rparr>,
                  trace := [E_buffer_mmap_current 0, E_string_ptr 1, E_string_free 1]\<rparr>)"
    by (simp_all add: ref_rt_def ref_string_ptr_def ref_string_free_def ref_init_def fun_eq_iff
        empty_shared_ptr_def)
  moreover from b have "copy_from ?rt left_first ?b 100 ref_init
      = (Inl (runtime_error ''invalid buffer''),
         ref_init\<lparr>foreign := (foreign ref_init)\<lparr>next_handle := 2\<rparr>,
                  trace := [E_buffer_mmap_discard 0, E_string_ptr 1, E_string_free 1]\<rparr>)"
    by (simp add: ref_rt_def ref_string_ptr_def ref_string_free_def ref_init_def fun_eq_iff
        empty_shared_ptr_def)
  ultimately show ?thesis using f by (simp add: Let_def)
qed

lemma length_load [simp]: "length (load m a n) = n"
  by (simp add: load_def)

lemma nth_load [simp]: "i < n \<Longrightarrow> load m a n ! i = m (a + i)"
  by (simp add: load_def)

lemma load_store [simp]: "load (store m a bs) a (length bs) = bs"
  by (rule nth_equalityI) (simp_all add: store_def)

lemma load_memcpy [simp]:
  "load (\<lambda>x. if dst \<le> x \<and> x < dst + n then m (src + (x - dst)) else m x) dst n = load m src n"
  by (rule nth_equalityI) simp_all

lemma copy_from_ref:
  assumes "buffers (foreign s) (stored (buffer_ptr b)) = Some c"
  shows "\<exists>s1. copy_from (ref_rt cfg) ord b src s = (Inr (), s1)
           \<and> buffers (foreign s1) (stored (buffer_ptr b)) = Some (load (host s) src (length c))
           \<and> trace s1 = trace s @
                 E_buffer_mmap_discard (stored (buffer_ptr b)) #
                 (case ord of
                    left_first \<Rightarrow>
                      [E_view_data (next_handle (foreign s)), E_view_size (next_handle (foreign s))]
                  | right_first \<Rightarrow>
                      [E_view_size (next_handle (foreign s)), E_view_data (next_handle (foreign s))])
                 @ [E_view_writeback (next_handle (foreign s)),
                    E_free view_res (next_handle (foreign s))]"
  using assms
  by (cases ord)
     (simp_all add: copy_from_def mmap_discard_def View_data_def View_size_def View_writeback_def
      View_destroy_def scope_exit_def memcpy_def bind_def call_def call_void_def lift_def return_def
      make_plaidml_view_def shared_ptr_make_def shared_ptr_release_def Deleter_def free_fn_def
      ref_rt_def ref_buffer_mmap_discard_def ref_view_data_def ref_view_size_def
      ref_view_writeback_def ref_view_free_def ok_def Let_def nth_append)

lemma copy_into_ref:
  assumes "buffers (foreign s) (stored (buffer_ptr b)) = Some c"
  shows "\<exists>s1. copy_into (ref_rt cfg) ord b dst s = (Inr (), s1)
           \<and> load (host s1) dst (length c) = c"
  using assms
  by (cases ord)
     (simp_all add: copy_into_def mmap_current_def View_data_def View_size_def
      View_destroy_def scope_exit_def memcpy_def bind_def call_def call_void_def lift_def return_def
      make_plaidml_view_def shared_ptr_make_def shared_ptr_release_def Deleter_def free_fn_def
      ref_rt_def ref_buffer_mmap_current_def ref_view_data_def ref_view_size_def
      ref_view_free_def ok_def Let_def nth_append)

text \<open>
  Claim C3. At the runtime of the specification: for every buffer whose handle is
  live, with content of \<open>n\<close> bytes, and every payload \<open>P\<close> of \<open>n\<close> bytes at \<open>src\<close>,
  \<^verbatim>\<open>copy_from(src)\<close> returns after mapping a discard-mode view, reading its address
  and its size (in either order), committing, and releasing the view after the
  commit; \<^verbatim>\<open>copy_into(dst)\<close> after it returns too, whichever order it reads address
  and size in, and the \<open>n\<close> bytes at \<open>dst\<close> are \<open>P\<close>.
\<close>

theorem copy_roundtrip:
  assumes "buffers (foreign s) (stored (buffer_ptr b)) = Some c"
    and "length P = length c"
    and "load (host s) src (length P) = P"
  shows "\<exists>s1 s2. copy_from (ref_rt cfg) ord b src s = (Inr (), s1)
           \<and> new_events s s1 =
                 E_buffer_mmap_discard (stored (buffer_ptr b)) #
                 (case ord of
                    left_first \<Rightarrow>
                      [E_view_data (next_handle (foreign s)), E_view_size (next_handle (foreign s))]
                  | right_first \<Rightarrow>
                      [E_view_size (next_handle (foreign s)), E_view_data (next_handle (foreign s))])
                 @ [E_view_writeback (next_handle (foreign s)),
                    E_free view_res (next_handle (foreign s))]
           \<and> copy_into (ref_rt cfg) ord' b dst s1 = (Inr (), s2)
           \<and> load (host s2) dst (length P) = P"
proof -
  from copy_from_ref [OF assms(1), of cfg ord src] assms(2,3)
  obtain s1 where f: "copy_from (ref_rt cfg) ord b src s = (Inr (), s1)"
    and b1: "buffers (foreign s1) (stored (buffer_ptr b)) = Some P"
    and t: "new_events s s1 =
                 E_buffer_mmap_discard (stored (buffer_ptr b)) #
                 (case ord of
                    left_first \<Rightarrow>
                      [E_view_data (next_handle (foreign s)), E_view_size (next_handle (foreign s))]
                  | right_first \<Rightarrow>
                      [E_view_size (next_handle (foreign s)), E_view_data (next_handle (foreign s))])
                 @ [E_view_writeback (next_handle (foreign s)),
                    E_free view_res (next_handle (foreign s))]"
    by auto
  from copy_into_ref [OF b1, of cfg ord' dst]
  obtain s2 where "copy_into (ref_rt cfg) ord' b dst s1 = (Inr (), s2)"
    and "load (host s2) dst (length P) = P"
    by auto
  with f t show ?thesis by blast
qed

text \<open>
  The payload 7, 9 at address 100, a buffer of two bytes, the destination at 200;
  \<^verbatim>\<open>copy_from\<close> reads the size first, \<^verbatim>\<open>copy_into\<close> the address.
\<close>

theorem copy_roundtrip_witness:
  "(let rt = ref_rt simple_config;
        b = \<lparr>buffer_ptr = \<lparr>stored = 1, ctrl = Some 0\<rparr>, shape = \<lparr>shape_ptr = empty_shared_ptr\<rparr>\<rparr>;
        s = \<lparr>host = (\<lambda>a. 0)(100 := 7, 101 := 9),
             foreign = \<lparr>next_handle = 2, strings = Map.empty, shapes = Map.empty,
                        buffers = [1 \<mapsto> [0, 0]], views = Map.empty\<rparr>,
             trace = [], blocks = [\<lparr>raw = 1, deleter = buffer_res, use_count = 1\<rparr>]\<rparr>;
        out = bind (copy_from rt right_first b 100) (\<lambda>u. copy_into rt left_first b 200) s
    in fst out = Inr () \<and> load (host (snd out)) 200 2 = [7, 9]
       \<and> take 5 (trace (snd out))
           = [E_buffer_mmap_discard 1, E_view_size 2, E_view_data 2, E_view_writeback 2,
              E_free view_res 2])"
proof -
  let ?rt = "ref_rt simple_config"
  let ?b = "\<lparr>buffer_ptr = \<lparr>stored = 1, ctrl = Some 0\<rparr>, shape = \<lparr>shape_ptr = empty_shared_ptr\<rparr>\<rparr>"
  let ?s = "\<lparr>host = (\<lambda>a. 0)(100 := 7, 101 := 9),
           foreign = \<lparr>next_handle = 2, strings = Map.empty, shapes = Map.empty,
                      buffers = [1 \<mapsto> [0, 0]], views = Map.empty\<rparr>,
           trace = [], blocks = [\<lparr>raw = 1, deleter = buffer_res, use_count = 1\<rparr>]\<rparr>"
  have live: "buffers (foreign ?s) (stored (buffer_ptr ?b)) = Some [0, 0]" by simp
  have len: "length [7, 9 :: byte] = length [0, 0 :: byte]" by simp
  have "[100 ..< 102] = [100, 101 :: nat]" by (simp add: upt_rec)
  then have src: "load (host ?s) 100 (length [7, 9 :: byte]) = [7, 9]"
    by (simp add: load_def)
  from copy_roundtrip [OF live len src, of simple_config right_first left_first 200]
  obtain s1 s2 where f: "copy_from ?rt right_first ?b 100 ?s = (Inr (), s1)"
    and e: "new_events ?s s1
        = [E_buffer_mmap_discard 1, E_view_size 2, E_view_data 2, E_view_writeback 2,
           E_free view_res 2]"
    and i: "copy_into ?rt left_first ?b 200 s1 = (Inr (), s2)"
    and l: "load (host s2) 200 (length [7, 9 :: byte]) = [7, 9]"
    by auto
  from f i have bnd: "bind (copy_from ?rt right_first ?b 100) (\<lambda>u. copy_into ?rt left_first ?b 200) ?s
      = (Inr (), s2)"
    by (simp add: bind_def)
  have "length [7, 9 :: byte] = 2" by simp
  with l have l2: "load (host s2) 200 2 = [7, 9]" by (simp only:)
  from e have t1: "trace s1 = [E_buffer_mmap_discard 1, E_view_size 2, E_view_data 2,
      E_view_writeback 2, E_free view_res 2]"
    by (simp add: new_events_def)
  from bridged_copy_into [of ?rt left_first ?b 200] i
  obtain evs where "trace s2 = trace s1 @ evs"
    unfolding bridged_def by (metis snd_conv)
  with t1 have t2: "take 5 (trace s2) = [E_buffer_mmap_discard 1, E_view_size 2, E_view_data 2,
      E_view_writeback 2, E_free view_res 2]"
    by simp
  from l2 t2 show ?thesis unfolding Let_def bnd fst_conv snd_conv by simp
qed


end
